theory Spec2Isabelle
  imports Complex_Main "HOL-Library.AList" "HOL-Library.Sublist"
begin

section \<open>Values: Python strings and the values \<open>json.loads\<close> produces\<close>

text \<open>
  A Python \<open>str\<close> is a sequence of Unicode code points: \<open>len\<close> and slicing count code
  points, not bytes. It is modelled as a list of code points; \<open>ascii\<close> embeds an ASCII
  literal, and the non-ASCII characters of the source's literals are written as their code
  points (for instance \<open>[0x1F4B0]\<close> for the money-bag sign of the pricing title).
\<close>

type_synonym ustr = "nat list"

definition ascii :: "string \<Rightarrow> ustr" where
  "ascii s = map of_char s"

text \<open>
  The values that \<open>json.loads\<close> returns: \<open>None\<close>, \<open>bool\<close>, \<open>int\<close>, \<open>float\<close>, \<open>str\<close>,
  \<open>list\<close> and \<open>dict\<close> with \<open>str\<close> keys. A dict is an association list read with
  \<open>map_of\<close> and written with \<open>AList.update\<close> (an existing key keeps its place, a new
  one goes last, as in Python); the keys of a parsed dict are distinct. \<open>JFloat\<close> carries
  a finite float; the non-standard \<open>NaN\<close> and \<open>Infinity\<close> behave as any non-zero float
  in everything modelled here.
\<close>

datatype json =
    JNull
  | JBool bool
  | JInt int
  | JFloat real
  | JStr ustr
  | JArr "json list"
  | JObj "(ustr \<times> json) list"

type_synonym pydict = "(ustr \<times> json) list"

text \<open>The exceptions the code can meet. \<open>External\<close> is an exception raised inside one of
  the two client libraries (network failure, rejected credential, rate limit), with its message.\<close>

datatype exn =
    KeyError
  | IndexError
  | TypeError
  | AttributeError
  | JSONDecodeError
  | External ustr

text \<open>\<open>bool(v)\<close>, as the \<open>if\<close> and the conditional expression apply it.\<close>

fun truthy :: "json \<Rightarrow> bool" where
  "truthy JNull = False"
| "truthy (JBool b) = b"
| "truthy (JInt i) = (i \<noteq> 0)"
| "truthy (JFloat r) = (r \<noteq> 0)"
| "truthy (JStr s) = (s \<noteq> [])"
| "truthy (JArr xs) = (xs \<noteq> [])"
| "truthy (JObj kvs) = (kvs \<noteq> [])"

text \<open>\<open>len(v)\<close>: defined on strings, lists and dicts; a \<open>TypeError\<close> on the other values.\<close>

fun py_len :: "json \<Rightarrow> exn + nat" where
  "py_len (JStr s) = Inr (length s)"
| "py_len (JArr xs) = Inr (length xs)"
| "py_len (JObj kvs) = Inr (length kvs)"
| "py_len _ = Inl TypeError"

text \<open>\<open>v[i]\<close> for a non-negative literal index \<open>i\<close>. A string yields the one-character
  string, a list its element, both raise \<open>IndexError\<close> out of range; a dict from JSON has
  only string keys, so an integer subscript raises \<open>KeyError\<close>; the other values are not
  subscriptable.\<close>

fun py_index :: "json \<Rightarrow> nat \<Rightarrow> exn + json" where
  "py_index (JStr s) i = (if i < length s then Inr (JStr [s ! i]) else Inl IndexError)"
| "py_index (JArr xs) i = (if i < length xs then Inr (xs ! i) else Inl IndexError)"
| "py_index (JObj kvs) i = Inl KeyError"
| "py_index _ i = Inl TypeError"

text \<open>\<open>d[k]\<close> and \<open>d.get(k, default)\<close> on a dict.\<close>

definition py_getitem :: "pydict \<Rightarrow> ustr \<Rightarrow> exn + json" where
  "py_getitem d k = (case map_of d k of None \<Rightarrow> Inl KeyError | Some v \<Rightarrow> Inr v)"

definition py_get :: "pydict \<Rightarrow> ustr \<Rightarrow> json \<Rightarrow> json" where
  "py_get d k dflt = (case map_of d k of None \<Rightarrow> dflt | Some v \<Rightarrow> v)"


section \<open>The external collaborators and the trace of calls\<close>

text \<open>
  The two network services, the JSON parser, the clock and Python's \<open>str()\<close> of a
  non-string value are not code of this repository: they are parameters of the model.
  \<^item> \<open>chat n prompt\<close> is the outcome of the \<open>n\<close>-th (from 0) chat-completion call of the
    request with that prompt: an exception, or the content of the first choice;
  \<^item> \<open>loads s\<close> is \<open>json.loads(s)\<close>, \<open>None\<close> when it raises;
  \<^item> \<open>get_dict n q\<close> is the outcome of the \<open>n\<close>-th search call, with search phrase \<open>q\<close>:
    an exception, or the dict that \<open>GoogleSearch(params).get_dict()\<close> returns;
  \<^item> \<open>strftime_now\<close> is \<open>datetime.datetime.now().strftime("%B %d, %Y")\<close>;
  \<^item> \<open>py_str v\<close> is \<open>str(v)\<close> for a value that is not a string.
  The call number lets one service answer the same request differently at different times.
\<close>

record env =
  chat :: "nat \<Rightarrow> ustr \<Rightarrow> exn + ustr"
  loads :: "ustr \<Rightarrow> json option"
  get_dict :: "nat \<Rightarrow> ustr \<Rightarrow> exn + pydict"
  strftime_now :: ustr
  py_str :: "json \<Rightarrow> ustr"

text \<open>A search result as \<open>search_amazon_data\<close> builds it: a dict with exactly these four
  keys, whose values are whatever the search response held.\<close>

record search_result =
  title :: json
  snippet :: json
  link :: json
  source :: json

text \<open>The calls made so far: the prompts sent to the chat service, and for each call of
  \<open>search_amazon_data\<close> the search phrase sent together with the list it returned.\<close>

record trace =
  prompts :: "ustr list"
  searches :: "(ustr \<times> search_result list) list"

text \<open>What an f-string does with a value: a string is inserted as it is.\<close>

definition format :: "env \<Rightarrow> json \<Rightarrow> ustr" where
  "format env v = (case v of JStr s \<Rightarrow> s | _ \<Rightarrow> py_str env v)"


section \<open>The classifier: \<open>analyze_strategy_question\<close>\<close>

definition classify_prompt :: "ustr \<Rightarrow> ustr" where
  \<open>classify_prompt question = concat
    [ascii ''\<newline>'',
     ascii ''        Analyze this Amazon strategy question and choose the SINGLE best category.\<newline>'',
     ascii ''        \<newline>'',
     ascii ''        Question: '',
     question,
     ascii ''\<newline>'',
     ascii ''        \<newline>'',
     ascii ''        Choose ONE category:\<newline>'',
     ascii ''        - competition (for competitor analysis, market leaders)\<newline>'',
     ascii ''        - advertising (for Amazon ads, PPC strategies)  \<newline>'',
     ascii ''        - trends (for market trends, consumer behavior)\<newline>'',
     ascii ''        - pricing (for pricing strategies, price analysis)\<newline>'',
     ascii ''        - reviews (for customer feedback, reviews)\<newline>'',
     ascii ''        - general (for broad strategy questions)\<newline>'',
     ascii ''        \<newline>'',
     ascii ''        Return only valid JSON with ONE category chosen:\<newline>'',
     ascii ''        {\<newline>'',
     ascii ''            "category": "competition",\<newline>'',
     ascii ''            "search_terms": ["supplement brands", "Amazon competitors", "market leaders"],\<newline>'',
     ascii ''            "focus_areas": ["competitive analysis", "market positioning", "differentiation"],\<newline>'',
     ascii ''            "analysis_type": "competitive landscape analysis",\<newline>'',
     ascii ''            "key_questions": ["Who are the top competitors?", "What are their strengths?", "Where are the gaps?"]\<newline>'',
     ascii ''        }\<newline>'',
     ascii ''        '']\<close>

definition valid_categories :: "ustr list" where
  "valid_categories =
     [ascii ''competition'', ascii ''advertising'', ascii ''trends'',
      ascii ''pricing'', ascii ''reviews'', ascii ''general'']"

text \<open>The dict of the \<open>except\<close> branch.\<close>

definition fallback :: "ustr \<Rightarrow> pydict" where
  "fallback question =
     [(ascii ''category'', JStr (ascii ''general'')),
      (ascii ''search_terms'', JArr [JStr question]),
      (ascii ''focus_areas'',
         JArr [JStr (ascii ''market analysis''), JStr (ascii ''opportunities''), JStr (ascii ''strategy'')]),
      (ascii ''analysis_type'', JStr (ascii ''General Amazon strategy analysis'')),
      (ascii ''key_questions'', JArr [JStr question])]"

text \<open>The body of the \<open>try\<close> after \<open>json.loads\<close> has returned \<open>v\<close>. On a value that is
  not a dict, \<open>analysis.get\<close> raises \<open>AttributeError\<close>. On a dict, \<open>x not in
  valid_categories\<close> compares with six strings, so it holds unless the category is one of
  those strings (an absent key reads as \<open>None\<close>); then only the category is overwritten.\<close>

definition validate :: "json \<Rightarrow> exn + pydict" where
  "validate v =
     (case v of
        JObj analysis \<Rightarrow>
          Inr (if py_get analysis (ascii ''category'') JNull \<notin> set (map JStr valid_categories)
               then AList.update (ascii ''category'') (JStr (ascii ''general'')) analysis
               else analysis)
      | _ \<Rightarrow> Inl AttributeError)"

text \<open>The chat call is made before the \<open>try\<close>: its exception leaves the function. Every
  exception inside the \<open>try\<close> is caught by the bare \<open>except\<close> and replaced by the fallback.\<close>

definition analyze_strategy_question :: "env \<Rightarrow> ustr \<Rightarrow> trace \<Rightarrow> (exn + pydict) \<times> trace" where
  "analyze_strategy_question env question t =
     (let prompt = classify_prompt question;
          t' = t\<lparr>prompts := prompts t @ [prompt]\<rparr>
      in case chat env (length (prompts t)) prompt of
           Inl e \<Rightarrow> (Inl e, t')
         | Inr content \<Rightarrow>
             (case (case loads env content of
                      None \<Rightarrow> Inl JSONDecodeError
                    | Some v \<Rightarrow> validate v) of
                Inl _ \<Rightarrow> (Inr (fallback question), t')
              | Inr analysis \<Rightarrow> (Inr analysis, t')))"


section \<open>The searcher: \<open>search_amazon_data\<close>\<close>

text \<open>The dict of six search phrases, all built before the lookup, and the phrase chosen
  for a category (\<open>search_queries.get(search_type, f"Amazon {query}")\<close>). The query is
  whatever value the caller passes; the f-strings format it.\<close>

definition search_queries :: "env \<Rightarrow> json \<Rightarrow> (ustr \<times> ustr) list" where
  "search_queries env query =
     (let q = format env query
      in [(ascii ''general'', ascii ''Amazon '' @ q @ ascii '' 2024''),
          (ascii ''competition'', ascii ''Amazon top sellers '' @ q @ ascii '' competitors''),
          (ascii ''trends'', ascii ''Amazon marketplace trends '' @ q @ ascii '' 2024''),
          (ascii ''advertising'', ascii ''Amazon PPC advertising strategy '' @ q),
          (ascii ''reviews'', ascii ''Amazon customer reviews '' @ q @ ascii '' analysis''),
          (ascii ''pricing'', ascii ''Amazon pricing strategy '' @ q @ ascii '' market'')])"

definition search_query :: "env \<Rightarrow> json \<Rightarrow> ustr \<Rightarrow> ustr" where
  "search_query env query search_type =
     (case map_of (search_queries env query) search_type of
        Some phrase \<Rightarrow> phrase
      | None \<Rightarrow> ascii ''Amazon '' @ format env query)"

text \<open>One entry of \<open>organic_results\<close> becomes a search result; \<open>result.get\<close> on a value
  that is not a dict raises \<open>AttributeError\<close>.\<close>

definition normalize :: "json \<Rightarrow> exn + search_result" where
  "normalize result =
     (case result of
        JObj r \<Rightarrow>
          Inr \<lparr>title = py_get r (ascii ''title'') (JStr []),
               snippet = py_get r (ascii ''snippet'') (JStr []),
               link = py_get r (ascii ''link'') (JStr []),
               source = py_get r (ascii ''displayed_link'') (py_get r (ascii ''source'') (JStr []))\<rparr>
      | _ \<Rightarrow> Inl AttributeError)"

text \<open>The \<open>for\<close> loop with its \<open>append\<close>: the first entry that raises ends it.\<close>

fun collect :: "json list \<Rightarrow> exn + search_result list" where
  "collect [] = Inr []"
| "collect (result # rest) =
     (case normalize result of
        Inl e \<Rightarrow> Inl e
      | Inr r \<Rightarrow> (case collect rest of Inl e \<Rightarrow> Inl e | Inr rs \<Rightarrow> Inr (r # rs)))"

text \<open>\<open>v[:6]\<close> as the loop iterates it: the first six elements of a list, the first six
  characters of a string; the other values cannot be sliced.\<close>

fun slice6 :: "json \<Rightarrow> exn + json list" where
  "slice6 (JArr xs) = Inr (take 6 xs)"
| "slice6 (JStr s) = Inr (map (\<lambda>c. JStr [c]) (take 6 s))"
| "slice6 _ = Inl TypeError"

text \<open>The body of the \<open>try\<close> once \<open>get_dict\<close> has returned.\<close>

definition organic :: "pydict \<Rightarrow> exn + search_result list" where
  "organic results =
     (case map_of results (ascii ''organic_results'') of
        None \<Rightarrow> Inr []
      | Some v \<Rightarrow> (case slice6 v of Inl e \<Rightarrow> Inl e | Inr xs \<Rightarrow> collect xs))"

text \<open>Every exception of the \<open>try\<close>, from the call or from reading its response, ends in
  \<open>return []\<close> (the \<open>print\<close> of the handler is not modelled).\<close>

definition search_amazon_data ::
  "env \<Rightarrow> json \<Rightarrow> ustr \<Rightarrow> trace \<Rightarrow> search_result list \<times> trace" where
  "search_amazon_data env query search_type t =
     (let q = search_query env query search_type;
          found = (case get_dict env (length (searches t)) q of
                     Inl e \<Rightarrow> Inl e
                   | Inr results \<Rightarrow> organic results);
          search_results = (case found of Inl e \<Rightarrow> [] | Inr rs \<Rightarrow> rs)
      in (search_results, t\<lparr>searches := searches t @ [(q, search_results)]\<rparr>))"


section \<open>The synthesizer: \<open>generate_enhanced_report\<close>\<close>

record report_template =
  tmpl_title :: ustr
  sections :: "ustr list"

definition report_templates :: "(ustr \<times> report_template) list" where
  "report_templates =
     [(ascii ''competition'',
        \<lparr>tmpl_title = [0x1F3C6] @ ascii '' Competitive Analysis Report'',
         sections = [ascii ''Market Position'', ascii ''Competitor Strengths/Weaknesses'',
                     ascii ''Competitive Gaps'', ascii ''Strategic Recommendations'']\<rparr>),
      (ascii ''advertising'',
        \<lparr>tmpl_title = [0x1F4E2] @ ascii '' Amazon Advertising Strategy Report'',
         sections = [ascii ''Current Ad Landscape'', ascii ''Opportunity Analysis'',
                     ascii ''Budget Allocation'', ascii ''Campaign Recommendations'']\<rparr>),
      (ascii ''trends'',
        \<lparr>tmpl_title = [0x1F4C8] @ ascii '' Market Trends Analysis'',
         sections = [ascii ''Emerging Trends'', ascii ''Consumer Behavior'',
                     ascii ''Market Opportunities'', ascii ''Strategic Positioning'']\<rparr>),
      (ascii ''pricing'',
        \<lparr>tmpl_title = [0x1F4B0] @ ascii '' Pricing Strategy Report'',
         sections = [ascii ''Price Analysis'', ascii ''Competitive Pricing'',
                     ascii ''Value Positioning'', ascii ''Pricing Recommendations'']\<rparr>),
      (ascii ''reviews'',
        \<lparr>tmpl_title = [0x2B50] @ ascii '' Customer Sentiment Analysis'',
         sections = [ascii ''Review Analysis'', ascii ''Customer Pain Points'',
                     ascii ''Satisfaction Drivers'', ascii ''Improvement Areas'']\<rparr>),
      (ascii ''general'',
        \<lparr>tmpl_title = [0x1F4CA] @ ascii '' Amazon Strategy Analysis'',
         sections = [ascii ''Market Overview'', ascii ''Key Insights'',
                     ascii ''Strategic Opportunities'', ascii ''Action Plan'']\<rparr>)]"

text \<open>\<open>d[k]\<close> on a table keyed by strings.\<close>

definition lookup :: "(ustr \<times> 'v) list \<Rightarrow> ustr \<Rightarrow> exn + 'v" where
  "lookup d k = (case map_of d k of None \<Rightarrow> Inl KeyError | Some v \<Rightarrow> Inr v)"

text \<open>\<open>str(i)\<close> for a non-negative integer.\<close>

fun decimal :: "nat \<Rightarrow> ustr" where
  "decimal n = (if n < 10 then [48 + n] else decimal (n div 10) @ [48 + n mod 10])"

text \<open>\<open>str.upper()\<close> on the ASCII range. The code applies it to the section names of the
  table only, which are ASCII.\<close>

definition upper_char :: "nat \<Rightarrow> nat" where
  "upper_char c = (if 97 \<le> c \<and> c \<le> 122 then c - 32 else c)"

definition upper :: "ustr \<Rightarrow> ustr" where
  "upper s = map upper_char s"

text \<open>\<open>sep.join(v)\<close>: \<open>v\<close> is iterated (a list by its elements, a string by its
  characters, a dict by its keys; the other values are not iterable) and every item must
  be a string.\<close>

fun iterate :: "json \<Rightarrow> exn + json list" where
  "iterate (JArr xs) = Inr xs"
| "iterate (JStr s) = Inr (map (\<lambda>c. JStr [c]) s)"
| "iterate (JObj kvs) = Inr (map (\<lambda>kv. JStr (fst kv)) kvs)"
| "iterate _ = Inl TypeError"

fun strs :: "json list \<Rightarrow> exn + ustr list" where
  "strs [] = Inr []"
| "strs (JStr s # rest) = (case strs rest of Inl e \<Rightarrow> Inl e | Inr ss \<Rightarrow> Inr (s # ss))"
| "strs (_ # rest) = Inl TypeError"

fun intersperse :: "ustr \<Rightarrow> ustr list \<Rightarrow> ustr" where
  "intersperse sep [] = []"
| "intersperse sep [s] = s"
| "intersperse sep (s # rest) = s @ sep @ intersperse sep rest"

definition py_join :: "ustr \<Rightarrow> json \<Rightarrow> exn + ustr" where
  "py_join sep v =
     (case iterate v of
        Inl e \<Rightarrow> Inl e
      | Inr items \<Rightarrow> (case strs items of Inl e \<Rightarrow> Inl e | Inr ss \<Rightarrow> Inr (intersperse sep ss)))"

text \<open>The loop over \<open>enumerate(search_results[:4], 1)\<close>: \<open>summary env i rs\<close> is what the
  results \<open>rs\<close>, numbered from \<open>i\<close>, add to \<open>search_summary\<close>.\<close>

fun summary :: "env \<Rightarrow> nat \<Rightarrow> search_result list \<Rightarrow> ustr" where
  "summary env i [] = []"
| "summary env i (result # rest) =
     (if truthy (snippet result)
      then ascii ''\<newline>**Source '' @ decimal i @ ascii '':** '' @ format env (title result)
             @ ascii ''\<newline>'' @ format env (snippet result)
             @ ascii ''\<newline>*From: '' @ format env (source result) @ ascii ''*\<newline>''
      else [])
     @ summary env (Suc i) rest"

definition search_summary :: "env \<Rightarrow> search_result list \<Rightarrow> ustr" where
  "search_summary env search_results = summary env 1 (take 4 search_results)"

text \<open>The four section headings of the prompt, \<open>template['sections'][0..3].upper()\<close>.\<close>

definition headings :: "report_template \<Rightarrow> exn + ustr list" where
  "headings template =
     (if length (sections template) < 4 then Inl IndexError
      else Inr (map upper (take 4 (sections template))))"

text \<open>The prompt of the synthesizer. \<open>join\<close> raises \<open>TypeError\<close> when the focus areas are
  not an iterable of strings; nothing else in the f-string can raise for a template of the
  table.\<close>

definition report_prompt ::
  "env \<Rightarrow> report_template \<Rightarrow> ustr \<Rightarrow> search_result list \<Rightarrow> pydict \<Rightarrow> exn + ustr" where
  "report_prompt env template question search_results analysis =
     (let current_date = strftime_now env
      in case py_join (ascii '', '') (py_get analysis (ascii ''focus_areas'') (JArr [])) of
           Inl e \<Rightarrow> Inl e
         | Inr focus_areas \<Rightarrow>
       (case headings template of
           Inl e \<Rightarrow> Inl e
         | Inr hs \<Rightarrow> Inr (concat
    [ascii ''\<newline>'',
     ascii ''        You are a senior Amazon strategy consultant. Create a comprehensive, professional strategy report.\<newline>'',
     ascii ''        \<newline>'',
     ascii ''        REPORT TYPE: '',
     tmpl_title template,
     ascii ''\<newline>'',
     ascii ''        DATE: '',
     current_date,
     ascii ''\<newline>'',
     ascii ''        CLIENT QUESTION: '',
     question,
     ascii ''\<newline>'',
     ascii ''        \<newline>'',
     ascii ''        ANALYSIS FRAMEWORK: '',
     format env (py_get analysis (ascii ''analysis_type'') (JStr (ascii ''Strategic analysis''))),
     ascii ''\<newline>'',
     ascii ''        KEY FOCUS AREAS: '',
     focus_areas,
     ascii ''\<newline>'',
     ascii ''        \<newline>'',
     ascii ''        MARKET RESEARCH DATA:\<newline>'',
     ascii ''        '',
     search_summary env search_results,
     ascii ''\<newline>'',
     ascii ''        \<newline>'',
     ascii ''        Create a detailed report with these sections:\<newline>'',
     ascii ''        \<newline>'',
     ascii ''        # '',
     tmpl_title template,
     ascii ''\<newline>'',
     ascii ''        *Generated on '',
     current_date,
     ascii ''*\<newline>'',
     ascii ''        \<newline>'',
     ascii ''        ## '' @ [0x1F3AF] @ ascii '' EXECUTIVE SUMMARY\<newline>'',
     ascii ''        '' @ [0x2022] @ ascii '' [Key insight 1 - most important finding]\<newline>'',
     ascii ''        '' @ [0x2022] @ ascii '' [Key insight 2 - critical opportunity or challenge]  \<newline>'',
     ascii ''        '' @ [0x2022] @ ascii '' [Key insight 3 - strategic implication]\<newline>'',
     ascii ''        \<newline>'',
     ascii ''        ## '' @ [0x1F50D] @ ascii '' '',
     hs ! 0,
     ascii ''\<newline>'',
     ascii ''        [Detailed analysis of first focus area with specific data points]\<newline>'',
     ascii ''        \<newline>'',
     ascii ''        ## '' @ [0x1F4CA] @ ascii '' '',
     hs ! 1,
     ascii ''\<newline>'',
     ascii ''        [Second major section with actionable insights]\<newline>'',
     ascii ''        \<newline>'',
     ascii ''        ## '' @ [0x1F4A1] @ ascii '' '',
     hs ! 2,
     ascii ''\<newline>'',
     ascii ''        [Third section focusing on opportunities and strategies]\<newline>'',
     ascii ''        \<newline>'',
     ascii ''        ## '' @ [0x1F680] @ ascii '' '',
     hs ! 3,
     ascii ''\<newline>'',
     ascii ''        1. **Immediate Actions (Next 30 days)**\<newline>'',
     ascii ''           - [Specific action item]\<newline>'',
     ascii ''           - [Specific action item]\<newline>'',
     ascii ''        \<newline>'',
     ascii ''        2. **Strategic Initiatives (Next 90 days)**\<newline>'',
     ascii ''           - [Strategic initiative]\<newline>'',
     ascii ''           - [Strategic initiative]\<newline>'',
     ascii ''        \<newline>'',
     ascii ''        3. **Long-term Strategy (6+ months)**\<newline>'',
     ascii ''           - [Long-term strategic direction]\<newline>'',
     ascii ''           - [Long-term strategic direction]\<newline>'',
     ascii ''        \<newline>'',
     ascii ''        ## '' @ [0x1F4C8] @ ascii '' KEY METRICS TO TRACK\<newline>'',
     ascii ''        '' @ [0x2022] @ ascii '' [Specific metric 1]\<newline>'',
     ascii ''        '' @ [0x2022] @ ascii '' [Specific metric 2]\<newline>'',
     ascii ''        '' @ [0x2022] @ ascii '' [Specific metric 3]\<newline>'',
     ascii ''        \<newline>'',
     ascii ''        ## '' @ [0x26A0] @ [0xFE0F] @ ascii '' POTENTIAL RISKS & MITIGATION\<newline>'',
     ascii ''        '' @ [0x2022] @ ascii '' **Risk:** [Potential challenge] | **Mitigation:** [How to address]\<newline>'',
     ascii ''        '' @ [0x2022] @ ascii '' **Risk:** [Potential challenge] | **Mitigation:** [How to address]\<newline>'',
     ascii ''        \<newline>'',
     ascii ''        Use specific data from the research. Be actionable and strategic. Focus on Amazon marketplace dynamics.\<newline>'',
     ascii ''        ''])))"

text \<open>The template is \<open>report_templates.get(template_type, report_templates["general"])\<close>;
  the prompt is built, sent, and the content of the answer is the report.\<close>

definition generate_enhanced_report ::
  "env \<Rightarrow> ustr \<Rightarrow> search_result list \<Rightarrow> pydict \<Rightarrow> ustr \<Rightarrow> trace \<Rightarrow> (exn + ustr) \<times> trace" where
  "generate_enhanced_report env question search_results analysis template_type t =
     (case lookup report_templates (ascii ''general'') of
        Inl e \<Rightarrow> (Inl e, t)
      | Inr general \<Rightarrow>
          (let template = (case map_of report_templates template_type of
                             Some tp \<Rightarrow> tp
                           | None \<Rightarrow> general)
           in case report_prompt env template question search_results analysis of
                Inl e \<Rightarrow> (Inl e, t)
              | Inr prompt \<Rightarrow>
                  (let t' = t\<lparr>prompts := prompts t @ [prompt]\<rparr>
                   in case chat env (length (prompts t)) prompt of
                        Inl e \<Rightarrow> (Inl e, t')
                      | Inr content \<Rightarrow> (Inr content, t'))))"


section \<open>The driver: \<open>research_and_analyze\<close>\<close>

record research_result =
  rr_question :: ustr
  rr_analysis :: pydict
  search_results :: "search_result list"
  report :: ustr
  sources :: "json list"
  report_type :: ustr
  template_used :: ustr

definition search_counts :: "(ustr \<times> nat) list" where
  "search_counts =
     [(ascii ''Quick Analysis'', 2), (ascii ''Deep Dive'', 3), (ascii ''Comprehensive Report'', 4)]"

text \<open>\<open>analysis['search_terms'][0] if analysis['search_terms'] else question\<close>.\<close>

definition primary_term :: "pydict \<Rightarrow> ustr \<Rightarrow> exn + json" where
  "primary_term analysis question =
     (case py_getitem analysis (ascii ''search_terms'') of
        Inl e \<Rightarrow> Inl e
      | Inr terms \<Rightarrow> if truthy terms then py_index terms 0 else Inr (JStr question))"

text \<open>\<open>num_searches >= k and len(analysis['search_terms']) > n\<close>: the right operand is
  evaluated only when the left one holds.\<close>

definition deep_enough :: "nat \<Rightarrow> nat \<Rightarrow> pydict \<Rightarrow> nat \<Rightarrow> exn + bool" where
  "deep_enough num_searches k analysis n =
     (if num_searches \<ge> k
      then (case py_getitem analysis (ascii ''search_terms'') of
              Inl e \<Rightarrow> Inl e
            | Inr terms \<Rightarrow> (case py_len terms of Inl e \<Rightarrow> Inl e | Inr l \<Rightarrow> Inr (l > n)))
      else Inr False)"

text \<open>\<open>analysis['search_terms'][n]\<close>.\<close>

definition nth_term :: "pydict \<Rightarrow> nat \<Rightarrow> exn + json" where
  "nth_term analysis n =
     (case py_getitem analysis (ascii ''search_terms'') of
        Inl e \<Rightarrow> Inl e
      | Inr terms \<Rightarrow> py_index terms n)"

text \<open>\<open>analysis['category']\<close>, read as the string that \<open>search_amazon_data\<close>,
  \<open>generate_enhanced_report\<close> and the template table expect. The classifier returns only
  dicts whose category is one of the six strings, so the last branch is never taken by
  the driver.\<close>

definition category_of :: "pydict \<Rightarrow> exn + ustr" where
  "category_of analysis =
     (case py_getitem analysis (ascii ''category'') of
        Inl e \<Rightarrow> Inl e
      | Inr (JStr c) \<Rightarrow> Inr c
      | Inr _ \<Rightarrow> Inl TypeError)"

text \<open>Step 2 of the driver: the primary search and the two searches that depend on the
  depth. The result is \<open>all_search_results\<close>, the list handed to the synthesizer.\<close>

definition run_searches ::
  "env \<Rightarrow> ustr \<Rightarrow> ustr \<Rightarrow> pydict \<Rightarrow> trace \<Rightarrow> (exn + search_result list) \<times> trace" where
  "run_searches env question research_depth analysis t =
     (let num_searches = (case map_of search_counts research_depth of Some n \<Rightarrow> n | None \<Rightarrow> 3)
      in case primary_term analysis question of
           Inl e \<Rightarrow> (Inl e, t)
         | Inr term1 \<Rightarrow>
       (case category_of analysis of
           Inl e \<Rightarrow> (Inl e, t)
         | Inr category \<Rightarrow>
       (let (primary_results, t1) = search_amazon_data env term1 category t;
            all1 = take 3 primary_results
        in case deep_enough num_searches 3 analysis 1 of
             Inl e \<Rightarrow> (Inl e, t1)
           | Inr second \<Rightarrow>
         (case (if second
                then (case nth_term analysis 1 of
                        Inl e \<Rightarrow> (Inl e, t1)
                      | Inr term2 \<Rightarrow>
                          (let (secondary_results, t2) =
                                 search_amazon_data env term2 (ascii ''general'') t1
                           in (Inr (all1 @ take 2 secondary_results), t2)))
                else (Inr all1, t1)) of
             (Inl e, t2) \<Rightarrow> (Inl e, t2)
           | (Inr all2, t2) \<Rightarrow>
         (case deep_enough num_searches 4 analysis 2 of
             Inl e \<Rightarrow> (Inl e, t2)
           | Inr third \<Rightarrow>
               (if third
                then (case nth_term analysis 2 of
                        Inl e \<Rightarrow> (Inl e, t2)
                      | Inr term3 \<Rightarrow>
                          (let (tertiary_results, t3) =
                                 search_amazon_data env term3 category t2
                           in (Inr (all2 @ take 2 tertiary_results), t3)))
                else (Inr all2, t2)))))))"

definition research_and_analyze ::
  "env \<Rightarrow> ustr \<Rightarrow> ustr \<Rightarrow> trace \<Rightarrow> (exn + research_result) \<times> trace" where
  "research_and_analyze env question research_depth t =
     (case analyze_strategy_question env question t of
        (Inl e, t0) \<Rightarrow> (Inl e, t0)
      | (Inr analysis, t0) \<Rightarrow>
     (case run_searches env question research_depth analysis t0 of
        (Inl e, t1) \<Rightarrow> (Inl e, t1)
      | (Inr all_search_results, t1) \<Rightarrow>
     (case category_of analysis of
        Inl e \<Rightarrow> (Inl e, t1)
      | Inr category \<Rightarrow>
     (case generate_enhanced_report env question all_search_results analysis category t1 of
        (Inl e, t2) \<Rightarrow> (Inl e, t2)
      | (Inr rep, t2) \<Rightarrow>
     (case lookup report_templates category of
        Inl e \<Rightarrow> (Inl e, t2)
      | Inr template \<Rightarrow>
          (Inr \<lparr>rr_question = question,
                rr_analysis = analysis,
                search_results = all_search_results,
                report = rep,
                sources = filter truthy (map link all_search_results),
                report_type = category,
                template_used = tmpl_title template\<rparr>, t2))))))"


section \<open>The presentation layer: the handler of the generate button\<close>

text \<open>\<open>s.replace(old, new)\<close> for a non-empty \<open>old\<close>: the occurrences are replaced from the
  left, without overlap.\<close>

function replace :: "ustr \<Rightarrow> ustr \<Rightarrow> ustr \<Rightarrow> ustr" where
  "replace old new [] = []"
| "replace old new (c # cs) =
     (if old \<noteq> [] \<and> prefix old (c # cs)
      then new @ replace old new (drop (length old) (c # cs))
      else c # replace old new cs)"
  by pat_completeness auto
termination
  by (relation "measure (\<lambda>(old, new, s). length s)") auto

definition file_name :: "ustr \<Rightarrow> ustr" where
  "file_name question =
     ascii ''amazon_strategy_report_''
       @ replace (ascii '' '') (ascii ''_'') (take 30 question)
       @ ascii ''.md''"

text \<open>The lines \<open>f"{i}. {source}\n"\<close> for \<open>enumerate(sources[:5], 1)\<close>.\<close>

fun source_lines :: "env \<Rightarrow> nat \<Rightarrow> json list \<Rightarrow> ustr" where
  "source_lines env i [] = []"
| "source_lines env i (src # rest) =
     decimal i @ ascii ''. '' @ format env src @ ascii ''\<newline>'' @ source_lines env (Suc i) rest"

definition report_with_sources :: "env \<Rightarrow> research_result \<Rightarrow> ustr" where
  "report_with_sources env results =
     (if sources results \<noteq> []
      then report results @ ascii ''\<newline>\<newline>## Research Sources\<newline>''
             @ source_lines env 1 (take 5 (sources results))
      else report results)"

text \<open>What the handler leaves on the page: one of the three error banners, or the report
  with the data and the file name of the download button.\<close>

datatype page =
    EnterQuestion
  | SystemNotReady
  | ErrorGeneratingReport exn
  | ReportPage research_result ustr ustr

definition on_generate :: "env \<Rightarrow> bool \<Rightarrow> ustr \<Rightarrow> ustr \<Rightarrow> trace \<Rightarrow> page \<times> trace" where
  "on_generate env agent_ready question research_depth t =
     (if question = [] then (EnterQuestion, t)
      else if \<not> agent_ready then (SystemNotReady, t)
      else (case research_and_analyze env question research_depth t of
              (Inl e, t') \<Rightarrow> (ErrorGeneratingReport e, t')
            | (Inr results, t') \<Rightarrow>
                (ReportPage results (report_with_sources env results) (file_name question), t')))"


section \<open>Notions used in the statements\<close>

text \<open>The search calls made between two traces, oldest first.\<close>

definition new_searches :: "trace \<Rightarrow> trace \<Rightarrow> (ustr \<times> search_result list) list" where
  "new_searches t t' = drop (length (searches t)) (searches t')"

definition no_calls :: trace where
  "no_calls = \<lparr>prompts = [], searches = []\<rparr>"

text \<open>The fallback classification as the specification describes it: category
  \<open>general\<close>, and the question as the only search term and the only key question.\<close>

definition is_fallback :: "ustr \<Rightarrow> pydict \<Rightarrow> bool" where
  "is_fallback question a \<longleftrightarrow>
     map_of a (ascii ''category'') = Some (JStr (ascii ''general'')) \<and>
     map_of a (ascii ''search_terms'') = Some (JArr [JStr question]) \<and>
     map_of a (ascii ''key_questions'') = Some (JArr [JStr question])"

text \<open>A parsed answer is recognized when it is a dict whose category is one of the six
  strings.\<close>

definition recognized :: "json option \<Rightarrow> bool" where
  "recognized parsed =
     (case parsed of
        Some (JObj d) \<Rightarrow> py_get d (ascii ''category'') JNull \<in> set (map JStr valid_categories)
      | _ \<Rightarrow> False)"

text \<open>The number of search calls the specification gives for a depth label and a number
  of search terms: one for a quick analysis; two for a deep dive with two terms or more,
  else one; three for a comprehensive report with three terms or more, else two when
  there are two terms and one otherwise.\<close>

definition expected_calls :: "ustr \<Rightarrow> nat \<Rightarrow> nat" where
  "expected_calls research_depth n =
     (if research_depth = ascii ''Quick Analysis'' then 1
      else if research_depth = ascii ''Deep Dive'' then (if 2 \<le> n then 2 else 1)
      else (if 3 \<le> n then 3 else if n = 2 then 2 else 1))"

text \<open>The same services, except that a search call that raises answers instead with a
  response that has no organic results.\<close>

definition quiet :: "env \<Rightarrow> env" where
  "quiet env =
     env\<lparr>get_dict := \<lambda>n q. (case get_dict env n q of Inl e \<Rightarrow> Inr [] | Inr r \<Rightarrow> Inr r)\<rparr>"

text \<open>A section name with every space turned into an underscore, as the file name of the
  download does character by character.\<close>

definition underscore :: "nat \<Rightarrow> nat" where
  "underscore c = (if c = 32 then 95 else c)"


section \<open>Concrete requests\<close>

text \<open>Services that ignore the text they are sent: the \<open>n\<close>-th chat call has outcome
  \<open>answer n\<close>, the parser returns \<open>parsed\<close>, the \<open>n\<close>-th search call has outcome
  \<open>found n\<close>. No value other than a string is ever formatted in the requests below.\<close>

definition services ::
  "(nat \<Rightarrow> exn + ustr) \<Rightarrow> json option \<Rightarrow> (nat \<Rightarrow> exn + pydict) \<Rightarrow> env" where
  "services answer parsed found =
     \<lparr>chat = \<lambda>n prompt. answer n,
      loads = \<lambda>s. parsed,
      get_dict = \<lambda>n q. found n,
      strftime_now = ascii ''November 04, 2026'',
      py_str = \<lambda>v. []\<rparr>"

definition pricing_question :: ustr where
  "pricing_question = ascii ''What are pricing trends for eco-friendly products on Amazon?''"

definition skincare_question :: ustr where
  "skincare_question =
     ascii ''What is the best ad strategy for skincare brands in 2024 on Amazon marketplaces today?''"

definition pricing_analysis :: pydict where
  "pricing_analysis =
     [(ascii ''category'', JStr (ascii ''pricing'')),
      (ascii ''search_terms'',
         JArr [JStr (ascii ''eco-friendly products''), JStr (ascii ''sustainable pricing''),
               JStr (ascii ''green premium'')]),
      (ascii ''focus_areas'', JArr [JStr (ascii ''price analysis''), JStr (ascii ''value'')]),
      (ascii ''analysis_type'', JStr (ascii ''pricing analysis'')),
      (ascii ''key_questions'', JArr [JStr (ascii ''What do buyers pay?'')])]"

text \<open>A classification outside the six categories that still names a search term.\<close>

definition seo_analysis :: pydict where
  "seo_analysis =
     [(ascii ''category'', JStr (ascii ''seo'')),
      (ascii ''search_terms'', JArr [JStr (ascii ''listing keywords'')])]"

definition hit :: "string \<Rightarrow> json" where
  "hit name =
     JObj [(ascii ''title'', JStr (ascii name)),
           (ascii ''snippet'', JStr (ascii ''about '' @ ascii name)),
           (ascii ''link'', JStr (ascii ''https://example.com/'' @ ascii name)),
           (ascii ''displayed_link'', JStr (ascii ''example.com''))]"

definition hit_result :: "string \<Rightarrow> search_result" where
  "hit_result name =
     \<lparr>title = JStr (ascii name),
      snippet = JStr (ascii ''about '' @ ascii name),
      link = JStr (ascii ''https://example.com/'' @ ascii name),
      source = JStr (ascii ''example.com'')\<rparr>"

definition four_hits :: pydict where
  "four_hits = [(ascii ''organic_results'', JArr [hit ''a'', hit ''b'', hit ''c'', hit ''d''])]"

definition env_pricing :: env where
  "env_pricing =
     services (\<lambda>n. Inr (ascii ''text'')) (Some (JObj pricing_analysis)) (\<lambda>n. Inr four_hits)"

definition env_seo :: env where
  "env_seo =
     services (\<lambda>n. Inr (ascii ''text'')) (Some (JObj seo_analysis)) (\<lambda>n. Inr four_hits)"

definition env_not_json :: env where
  "env_not_json = services (\<lambda>n. Inr (ascii ''Sorry, I cannot.'')) None (\<lambda>n. Inr four_hits)"

definition env_search_down :: env where
  "env_search_down =
     services (\<lambda>n. Inr (ascii ''text'')) (Some (JObj pricing_analysis))
       (\<lambda>n. if n = 0 then Inl (External (ascii ''timed out'')) else Inr four_hits)"

text \<open>The same classification, with a search service that is down for every call.\<close>

definition env_all_down :: env where
  "env_all_down =
     services (\<lambda>n. Inr (ascii ''text'')) (Some (JObj pricing_analysis))
       (\<lambda>n. Inl (External (ascii ''timed out'')))"

definition env_chat_down :: env where
  "env_chat_down =
     services (\<lambda>n. Inl (External (ascii ''rate limit''))) None (\<lambda>n. Inr four_hits)"

definition env_no_terms :: env where
  "env_no_terms =
     services (\<lambda>n. Inr (ascii ''text'')) (Some (JObj [(ascii ''category'', JStr (ascii ''pricing''))]))
       (\<lambda>n. Inr four_hits)"

definition env_empty_terms :: env where
  "env_empty_terms =
     services (\<lambda>n. Inr (ascii ''text''))
       (Some (JObj [(ascii ''category'', JStr (ascii ''pricing'')), (ascii ''search_terms'', JArr [])]))
       (\<lambda>n. Inr four_hits)"


text \<open>What the driver returns for the pricing question at depth \<open>Deep Dive\<close> with the
  services \<open>env_pricing\<close>: three results of the first search and two of the second.\<close>

definition deep_dive_result :: research_result where
  "deep_dive_result =
     \<lparr>rr_question = pricing_question,
      rr_analysis = pricing_analysis,
      search_results = [hit_result ''a'', hit_result ''b'', hit_result ''c'',
                        hit_result ''a'', hit_result ''b''],
      report = ascii ''text'',
      sources = [JStr (ascii ''https://example.com/a''), JStr (ascii ''https://example.com/b''),
                 JStr (ascii ''https://example.com/c''), JStr (ascii ''https://example.com/a''),
                 JStr (ascii ''https://example.com/b'')],
      report_type = ascii ''pricing'',
      template_used = [0x1F4B0] @ ascii '' Pricing Strategy Report''\<rparr>"

section \<open>Basic facts\<close>

lemma ascii_eq_iff [simp]: "ascii s = ascii t \<longleftrightarrow> s = t"
  unfolding ascii_def by (rule inj_map_eq_map) (simp add: inj_on_def)

lemma ascii_Nil_iff [simp]: "ascii s = [] \<longleftrightarrow> s = []" "[] = ascii s \<longleftrightarrow> s = []"
  by (auto simp: ascii_def)


section \<open>The classifier\<close>

lemma validate_category:
  "validate v = Inr a \<Longrightarrow> \<exists>c\<in>set valid_categories. map_of a (ascii ''category'') = Some (JStr c)"
  by (cases v) (auto simp: validate_def py_get_def update_conv' valid_categories_def
        split: if_splits option.splits)

lemma analyze_category:
  assumes "analyze_strategy_question env question t = (Inr analysis, t')"
  shows "\<exists>c\<in>set valid_categories. map_of analysis (ascii ''category'') = Some (JStr c)"
  using assms validate_category
  by (auto simp: analyze_strategy_question_def Let_def fallback_def valid_categories_def
        split: sum.splits option.splits)

lemma analyze_trace:
  "snd (analyze_strategy_question env question t) =
     t\<lparr>prompts := prompts t @ [classify_prompt question]\<rparr>"
  by (simp add: analyze_strategy_question_def Let_def split: sum.splits option.splits)

lemma validate_unrecognized:
  assumes "\<not> recognized (Some v)" and "validate v = Inr a"
  shows "map_of a (ascii ''category'') = Some (JStr (ascii ''general''))"
  using assms
  by (cases v) (auto simp: validate_def recognized_def update_conv' split: if_splits)

text \<open>
  Claim C1, in the form that holds of the code. When the chat call returns and the body
  does not parse, or parses to something that is not a dict, the classifier returns the
  fallback dict: category \<open>general\<close>, the question as the only search term and the only
  key question. When the body parses to a dict whose category is not one of the six
  strings, the classifier returns that dict with the category overwritten by \<open>general\<close>
  and every other key, \<open>search_terms\<close> included, as the answer gave it.
\<close>

theorem classifier_fallback:
  assumes "chat env (length (prompts t)) (classify_prompt question) = Inr content"
  shows "((\<forall>d. loads env content \<noteq> Some (JObj d)) \<longrightarrow>
            fst (analyze_strategy_question env question t) = Inr (fallback question)
            \<and> is_fallback question (fallback question)) \<and>
         (\<forall>d. loads env content = Some (JObj d)
               \<and> py_get d (ascii ''category'') JNull \<notin> set (map JStr valid_categories) \<longrightarrow>
            (\<exists>a. fst (analyze_strategy_question env question t) = Inr a
               \<and> map_of a = (map_of d)(ascii ''category'' \<mapsto> JStr (ascii ''general''))))"
proof (intro conjI allI impI)
  assume nd: "\<forall>d. loads env content \<noteq> Some (JObj d)"
  have "case loads env content of None \<Rightarrow> True | Some v \<Rightarrow> validate v = Inl AttributeError"
    using nd by (auto simp: validate_def split: option.splits json.splits)
  then show "fst (analyze_strategy_question env question t) = Inr (fallback question)"
    using assms by (auto simp: analyze_strategy_question_def Let_def split: option.splits)
  show "is_fallback question (fallback question)"
    by (simp add: is_fallback_def fallback_def)
next
  fix d
  assume h: "loads env content = Some (JObj d)
               \<and> py_get d (ascii ''category'') JNull \<notin> set (map JStr valid_categories)"
  then have "fst (analyze_strategy_question env question t)
      = Inr (AList.update (ascii ''category'') (JStr (ascii ''general'')) d)"
    using assms by (simp add: analyze_strategy_question_def Let_def validate_def)
  then show "\<exists>a. fst (analyze_strategy_question env question t) = Inr a
               \<and> map_of a = (map_of d)(ascii ''category'' \<mapsto> JStr (ascii ''general''))"
    by (simp add: update_conv')
qed

text \<open>The claim as written fails: an answer with the category \<open>seo\<close> and one search term
  keeps its search term, which is not the question.\<close>

theorem classifier_fallback_counterexample:
  "chat env_seo 0 (classify_prompt pricing_question) = Inr (ascii ''text'') \<and>
   loads env_seo (ascii ''text'') = Some (JObj seo_analysis) \<and>
   py_get seo_analysis (ascii ''category'') JNull \<notin> set (map JStr valid_categories) \<and>
   fst (analyze_strategy_question env_seo pricing_question no_calls) =
     Inr [(ascii ''category'', JStr (ascii ''general'')),
          (ascii ''search_terms'', JArr [JStr (ascii ''listing keywords'')])] \<and>
   \<not> is_fallback pricing_question
       [(ascii ''category'', JStr (ascii ''general'')),
        (ascii ''search_terms'', JArr [JStr (ascii ''listing keywords'')])]"
  by (simp add: analyze_strategy_question_def env_seo_def services_def no_calls_def
        validate_def seo_analysis_def py_get_def valid_categories_def is_fallback_def
        pricing_question_def)

theorem classifier_fallback_witness:
  "chat env_not_json 0 (classify_prompt pricing_question) = Inr (ascii ''Sorry, I cannot.'') \<and>
   loads env_not_json (ascii ''Sorry, I cannot.'') = None \<and>
   fst (analyze_strategy_question env_not_json pricing_question no_calls)
     = Inr (fallback pricing_question) \<and>
   is_fallback pricing_question (fallback pricing_question) \<and>
   chat env_seo 0 (classify_prompt pricing_question) = Inr (ascii ''text'') \<and>
   loads env_seo (ascii ''text'') = Some (JObj seo_analysis) \<and>
   py_get seo_analysis (ascii ''category'') JNull \<notin> set (map JStr valid_categories) \<and>
   (\<exists>a. fst (analyze_strategy_question env_seo pricing_question no_calls) = Inr a
      \<and> map_of a = (map_of seo_analysis)(ascii ''category'' \<mapsto> JStr (ascii ''general'')))"
proof -
  have c1: "chat env_not_json (length (prompts no_calls)) (classify_prompt pricing_question)
              = Inr (ascii ''Sorry, I cannot.'')"
    by (simp add: env_not_json_def services_def)
  have l1: "loads env_not_json (ascii ''Sorry, I cannot.'') = None"
    by (simp add: env_not_json_def services_def)
  have c2: "chat env_seo (length (prompts no_calls)) (classify_prompt pricing_question)
              = Inr (ascii ''text'')"
    by (simp add: env_seo_def services_def)
  have l2: "loads env_seo (ascii ''text'') = Some (JObj seo_analysis)"
    by (simp add: env_seo_def services_def)
  have o2: "py_get seo_analysis (ascii ''category'') JNull \<notin> set (map JStr valid_categories)"
    by (simp add: seo_analysis_def py_get_def valid_categories_def)
  from classifier_fallback [OF c1] classifier_fallback [OF c2] c1 l1 c2 l2 o2
  show ?thesis by (simp add: no_calls_def)
qed

text \<open>
  Claim C7. Every dict that \<open>analyze_strategy_question\<close> returns, parsed or fallback, has
  a category that is one of the six strings; and whenever the answer did not parse, was
  not a dict, or carried a category outside the six, that category is \<open>general\<close>.
\<close>

theorem category_invariant:
  assumes "analyze_strategy_question env question t = (Inr analysis, t')"
  shows "(\<exists>c\<in>set valid_categories. map_of analysis (ascii ''category'') = Some (JStr c)) \<and>
         (\<forall>content. chat env (length (prompts t)) (classify_prompt question) = Inr content
              \<and> \<not> recognized (loads env content)
            \<longrightarrow> map_of analysis (ascii ''category'') = Some (JStr (ascii ''general'')))"
proof (intro conjI allI impI)
  show "\<exists>c\<in>set valid_categories. map_of analysis (ascii ''category'') = Some (JStr c)"
    using assms by (rule analyze_category)
next
  fix content
  assume h: "chat env (length (prompts t)) (classify_prompt question) = Inr content
              \<and> \<not> recognized (loads env content)"
  show "map_of analysis (ascii ''category'') = Some (JStr (ascii ''general''))"
  proof (cases "loads env content")
    case None
    with h assms have "analysis = fallback question"
      by (simp add: analyze_strategy_question_def Let_def)
    then show ?thesis by (simp add: fallback_def)
  next
    case (Some v)
    show ?thesis
    proof (cases "validate v")
      case (Inl e)
      with h assms Some have "analysis = fallback question"
        by (simp add: analyze_strategy_question_def Let_def)
      then show ?thesis by (simp add: fallback_def)
    next
      case (Inr a)
      with h assms Some have "analysis = a"
        by (simp add: analyze_strategy_question_def Let_def)
      moreover from h Some have "\<not> recognized (Some v)" by simp
      ultimately show ?thesis using Inr validate_unrecognized by blast
    qed
  qed
qed

theorem category_invariant_witness:
  "analyze_strategy_question env_seo pricing_question no_calls =
     (Inr [(ascii ''category'', JStr (ascii ''general'')),
           (ascii ''search_terms'', JArr [JStr (ascii ''listing keywords'')])],
      \<lparr>prompts = [classify_prompt pricing_question], searches = []\<rparr>) \<and>
   chat env_seo 0 (classify_prompt pricing_question) = Inr (ascii ''text'') \<and>
   \<not> recognized (loads env_seo (ascii ''text'')) \<and>
   map_of [(ascii ''category'', JStr (ascii ''general'')),
           (ascii ''search_terms'', JArr [JStr (ascii ''listing keywords'')])] (ascii ''category'')
     = Some (JStr (ascii ''general''))"
proof -
  have run: "analyze_strategy_question env_seo pricing_question no_calls =
     (Inr [(ascii ''category'', JStr (ascii ''general'')),
           (ascii ''search_terms'', JArr [JStr (ascii ''listing keywords'')])],
      \<lparr>prompts = [classify_prompt pricing_question], searches = []\<rparr>)"
    by (simp add: analyze_strategy_question_def env_seo_def services_def no_calls_def
          validate_def seo_analysis_def py_get_def valid_categories_def)
  have unrec: "\<not> recognized (loads env_seo (ascii ''text''))"
    by (simp add: recognized_def env_seo_def services_def seo_analysis_def py_get_def
          valid_categories_def)
  have sent: "chat env_seo 0 (classify_prompt pricing_question) = Inr (ascii ''text'')"
    by (simp add: env_seo_def services_def)
  from category_invariant [OF run] sent unrec run show ?thesis
    by (simp add: no_calls_def)
qed

section \<open>The searcher and the driver\<close>

lemma search_amazon_data_snd:
  "snd (search_amazon_data env query ty t) =
     t\<lparr>searches := searches t @ [(search_query env query ty, fst (search_amazon_data env query ty t))]\<rparr>"
  by (simp add: search_amazon_data_def Let_def)

lemma search_amazon_data_raises:
  "get_dict env (length (searches t)) (search_query env query ty) = Inl e \<Longrightarrow>
   fst (search_amazon_data env query ty t) = []"
  by (simp add: search_amazon_data_def Let_def)

lemma search_amazon_data_all_down:
  "\<forall>n p. \<exists>e. get_dict env n p = Inl e \<Longrightarrow> fst (search_amazon_data env query ty t) = []"
proof -
  assume "\<forall>n p. \<exists>e. get_dict env n p = Inl e"
  then obtain e where "get_dict env (length (searches t)) (search_query env query ty) = Inl e"
    by blast
  then show ?thesis by (rule search_amazon_data_raises)
qed

lemma generate_searches:
  "searches (snd (generate_enhanced_report env q rs a c t)) = searches t"
  by (simp add: generate_enhanced_report_def Let_def split: sum.splits option.splits)

lemma run_searches_length:
  assumes "run_searches env q d a t = (Inr rs, t')"
  shows "length rs \<le> 7"
  using assms
  by (auto simp: run_searches_def Let_def case_prod_beta split: sum.splits if_splits)

text \<open>The searches of a classification whose search terms are a list, for the three depth
  labels of the selector.\<close>

lemma run_searches_list:
  assumes "map_of a (ascii ''search_terms'') = Some (JArr ts)"
    and "category_of a = Inr c"
    and "d \<in> set (map fst search_counts)"
  shows "\<exists>rs t1. run_searches env q d a t = (Inr rs, t1) \<and> prompts t1 = prompts t \<and>
           length (new_searches t t1) = expected_calls d (length ts) \<and>
           rs = concat (map2 take [3, 2, 2] (map snd (new_searches t t1))) \<and>
           map fst (take 1 (new_searches t t1))
             = [search_query env (if ts = [] then JStr q else ts ! 0) c]"
  using assms
  by (auto simp: run_searches_def Let_def case_prod_beta search_counts_def primary_term_def
        deep_enough_def nth_term_def py_getitem_def search_amazon_data_snd new_searches_def
        expected_calls_def)

text \<open>With a list of search terms the searches never end in an exception, whatever the
  search service does, and for any depth.\<close>

lemma run_searches_continues:
  assumes "map_of a (ascii ''search_terms'') = Some (JArr ts)"
    and "category_of a = Inr c"
  shows "\<exists>rs t1. run_searches env q d a t = (Inr rs, t1) \<and>
           rs = concat (map2 take [3, 2, 2] (map snd (new_searches t t1))) \<and>
           ((\<forall>n p. \<exists>e. get_dict env n p = Inl e) \<longrightarrow> rs = [])"
  using assms
  by (auto simp: run_searches_def Let_def case_prod_beta primary_term_def
        deep_enough_def nth_term_def py_getitem_def search_amazon_data_snd new_searches_def
        search_amazon_data_all_down)

lemma run_searches_no_terms:
  "map_of a (ascii ''search_terms'') = None \<Longrightarrow>
   run_searches env q d a t = (Inl KeyError, t)"
  by (simp add: run_searches_def primary_term_def py_getitem_def)

lemma run_searches_empty_terms:
  assumes "map_of a (ascii ''search_terms'') = Some (JArr [])" and "category_of a = Inr c"
  shows "\<exists>rs t1. run_searches env q d a t = (Inr rs, t1) \<and>
           map fst (new_searches t t1) = [search_query env (JStr q) c]"
  using assms
  by (auto simp: run_searches_def Let_def case_prod_beta primary_term_def
        deep_enough_def nth_term_def py_getitem_def search_amazon_data_snd new_searches_def)

lemma category_of_str:
  "map_of a (ascii ''category'') = Some (JStr c) \<Longrightarrow> category_of a = Inr c"
  by (simp add: category_of_def py_getitem_def)

lemma analyze_dict:
  assumes "chat env (length (prompts t)) (classify_prompt q) = Inr content"
    and "loads env content = Some (JObj d)"
  shows "\<exists>a. analyze_strategy_question env q t
            = (Inr a, t\<lparr>prompts := prompts t @ [classify_prompt q]\<rparr>)
          \<and> (\<forall>k. k \<noteq> ascii ''category'' \<longrightarrow> map_of a k = map_of d k)"
  using assms
  by (simp add: analyze_strategy_question_def validate_def Let_def update_conv')

lemma research_searches:
  assumes "analyze_strategy_question env q t = (Inr a, t0)"
    and "run_searches env q d a t0 = (Inr rs, t1)"
  shows "searches (snd (research_and_analyze env q d t)) = searches t1"
proof (cases "category_of a")
  case (Inl e)
  with assms show ?thesis by (simp add: research_and_analyze_def)
next
  case (Inr c)
  obtain x t2 where g: "generate_enhanced_report env q rs a c t1 = (x, t2)"
    by (cases "generate_enhanced_report env q rs a c t1")
  then have "searches t2 = searches t1"
    using generate_searches [of env q rs a c t1] by simp
  with assms Inr g show ?thesis
    by (simp add: research_and_analyze_def split: sum.splits)
qed

lemma research_result:
  assumes "research_and_analyze env q d t = (Inr r, t')"
  shows "\<exists>a t0 t1. analyze_strategy_question env q t = (Inr a, t0)
           \<and> run_searches env q d a t0 = (Inr (search_results r), t1)
           \<and> (\<exists>c tp. category_of a = Inr c \<and> lookup report_templates c = Inr tp
                 \<and> template_used r = tmpl_title tp)"
  using assms
  by (auto simp: research_and_analyze_def split: sum.splits prod.splits)

lemma research_returns:
  assumes "analyze_strategy_question env q t = (Inr a, t0)"
    and "run_searches env q d a t0 = (Inr rs, t1)"
    and "category_of a = Inr c"
    and "generate_enhanced_report env q rs a c t1 = (Inr rep, t2)"
  shows "\<exists>r. research_and_analyze env q d t = (Inr r, t2) \<and> search_results r = rs \<and>
           report r = rep \<and> sources r = filter truthy (map link rs)"
proof -
  from assms(1) analyze_category obtain c' where c': "c' \<in> set valid_categories"
    and "map_of a (ascii ''category'') = Some (JStr c')" by blast
  with assms(3) have "c = c'" by (simp add: category_of_def py_getitem_def)
  with c' obtain tp where "lookup report_templates c = Inr tp"
    by (auto simp: valid_categories_def lookup_def report_templates_def)
  with assms show ?thesis by (simp add: research_and_analyze_def)
qed


section \<open>A search call that raises and one that finds nothing\<close>

lemma quiet_sel:
  "chat (quiet env) = chat env" "loads (quiet env) = loads env"
  "strftime_now (quiet env) = strftime_now env" "py_str (quiet env) = py_str env"
  by (simp_all add: quiet_def)

lemma format_quiet: "format (quiet env) v = format env v"
  unfolding format_def by (simp only: quiet_sel)

lemma search_query_quiet: "search_query (quiet env) query ty = search_query env query ty"
  unfolding search_query_def search_queries_def by (simp only: format_quiet)

lemma search_amazon_data_quiet:
  "search_amazon_data (quiet env) query ty t = search_amazon_data env query ty t"
proof (cases "get_dict env (length (searches t)) (search_query env query ty)")
  case (Inl e)
  then have "get_dict (quiet env) (length (searches t)) (search_query env query ty) = Inr []"
    by (simp add: quiet_def)
  with Inl show ?thesis
    by (simp add: search_amazon_data_def search_query_quiet Let_def organic_def)
next
  case (Inr r)
  then have "get_dict (quiet env) (length (searches t)) (search_query env query ty) = Inr r"
    by (simp add: quiet_def)
  with Inr show ?thesis
    by (simp add: search_amazon_data_def search_query_quiet Let_def)
qed

lemma analyze_quiet:
  "analyze_strategy_question (quiet env) q t = analyze_strategy_question env q t"
  unfolding analyze_strategy_question_def by (simp only: quiet_sel)

lemma summary_quiet: "summary (quiet env) i rs = summary env i rs"
  by (induction rs arbitrary: i) (simp_all add: format_quiet)

lemma report_prompt_quiet:
  "report_prompt (quiet env) tp q rs a = report_prompt env tp q rs a"
  unfolding report_prompt_def search_summary_def
  by (simp only: format_quiet summary_quiet quiet_sel)

lemma generate_quiet:
  "generate_enhanced_report (quiet env) q rs a c t = generate_enhanced_report env q rs a c t"
  unfolding generate_enhanced_report_def by (simp only: report_prompt_quiet quiet_sel)

lemma run_searches_quiet:
  "run_searches (quiet env) q d a t = run_searches env q d a t"
  unfolding run_searches_def by (simp only: search_amazon_data_quiet)

lemma research_quiet:
  "research_and_analyze (quiet env) q d t = research_and_analyze env q d t"
  unfolding research_and_analyze_def
  by (simp only: analyze_quiet run_searches_quiet generate_quiet)


section \<open>The prompt of the synthesizer\<close>

lemma sublist_concat_mem: "x \<in> set xss \<Longrightarrow> sublist x (concat xss)"
proof -
  assume "x \<in> set xss"
  then obtain as bs where "xss = as @ x # bs" by (auto dest: split_list)
  then have "concat xss = concat as @ x @ concat bs" by simp
  then show ?thesis by (simp only: sublist_appendI)
qed

lemma template_sections:
  "map_of report_templates c = Some tp \<Longrightarrow> length (sections tp) = 4"
  by (auto simp: report_templates_def split: if_splits)

lemma report_prompt_embeds:
  assumes "report_prompt env tp q rs a = Inr p" and "length (sections tp) = 4"
  shows "sublist (tmpl_title tp) p \<and>
         sublist (upper (sections tp ! 0)) p \<and> sublist (upper (sections tp ! 1)) p \<and>
         sublist (upper (sections tp ! 2)) p \<and> sublist (upper (sections tp ! 3)) p"
  using assms unfolding report_prompt_def headings_def Let_def
  by (auto split: sum.splits simp del: concat.simps intro!: sublist_concat_mem)

lemma generate_prompt:
  assumes "map_of report_templates c = Some tp"
    and "prompts (snd (generate_enhanced_report env q rs a c t)) = prompts t @ [p]"
  shows "report_prompt env tp q rs a = Inr p"
  using assms
  by (auto simp: generate_enhanced_report_def lookup_def Let_def report_templates_def
        split: sum.splits if_splits)


section \<open>The file name of the download\<close>

lemma replace_char:
  "replace [a] [b] s = map (\<lambda>c. if c = a then b else c) s"
  by (induction s) auto


section \<open>The concrete requests, run\<close>

lemma ascii_append: "ascii (s @ t) = ascii s @ ascii t"
  by (simp add: ascii_def)

lemma organic_four_hits:
  "organic four_hits = Inr [hit_result ''a'', hit_result ''b'', hit_result ''c'', hit_result ''d'']"
  by (simp add: organic_def four_hits_def hit_def hit_result_def normalize_def py_get_def)

lemmas run_defs =
  research_and_analyze_def analyze_strategy_question_def services_def no_calls_def
  validate_def py_get_def valid_categories_def run_searches_def search_counts_def
  primary_term_def py_getitem_def category_of_def search_amazon_data_def organic_four_hits
  deep_enough_def nth_term_def generate_enhanced_report_def lookup_def
  report_templates_def report_prompt_def py_join_def headings_def Let_def
  hit_result_def ascii_append [symmetric]

lemma pricing_classified:
  "analyze_strategy_question env_pricing pricing_question no_calls
     = (Inr pricing_analysis, \<lparr>prompts = [classify_prompt pricing_question], searches = []\<rparr>)"
  by (simp add: analyze_strategy_question_def env_pricing_def services_def no_calls_def
        validate_def pricing_analysis_def py_get_def valid_categories_def)

lemma deep_dive_run:
  "fst (research_and_analyze env_pricing pricing_question (ascii ''Deep Dive'') no_calls)
     = Inr deep_dive_result"
  by (simp add: research_and_analyze_def analyze_strategy_question_def env_pricing_def
        services_def no_calls_def validate_def pricing_analysis_def py_get_def
        valid_categories_def run_searches_def search_counts_def primary_term_def
        py_getitem_def category_of_def search_amazon_data_def organic_four_hits
        deep_enough_def nth_term_def generate_enhanced_report_def lookup_def
        report_templates_def report_prompt_def py_join_def headings_def Let_def
        deep_dive_result_def hit_result_def ascii_append [symmetric])

lemma deep_dive_searches:
  "fst (run_searches env_pricing pricing_question (ascii ''Deep Dive'') pricing_analysis
          \<lparr>prompts = [classify_prompt pricing_question], searches = []\<rparr>)
     = Inr (search_results deep_dive_result)"
  by (simp add: run_defs env_pricing_def pricing_analysis_def deep_dive_result_def)

lemma comprehensive_seven:
  "map_sum id (length \<circ> search_results)
     (fst (research_and_analyze env_pricing pricing_question (ascii ''Comprehensive Report'') no_calls))
     = Inr 7"
  by (simp add: run_defs env_pricing_def pricing_analysis_def)

lemma pricing_prompt_sent:
  "length (prompts (snd (generate_enhanced_report env_pricing pricing_question
      (search_results deep_dive_result) pricing_analysis (ascii ''pricing'') no_calls))) = 1"
  by (simp add: run_defs env_pricing_def pricing_analysis_def)

lemma all_down_classified:
  "analyze_strategy_question env_all_down pricing_question no_calls
     = (Inr pricing_analysis, \<lparr>prompts = [classify_prompt pricing_question], searches = []\<rparr>)"
  by (simp add: analyze_strategy_question_def env_all_down_def services_def no_calls_def
        validate_def pricing_analysis_def py_get_def valid_categories_def)

lemma all_down_run:
  "map_sum id search_results
     (fst (research_and_analyze env_all_down pricing_question (ascii ''Deep Dive'') no_calls))
     = Inr [] \<and>
   map_sum id report
     (fst (research_and_analyze env_all_down pricing_question (ascii ''Deep Dive'') no_calls))
     = Inr (ascii ''text'') \<and>
   length (new_searches no_calls
     (snd (research_and_analyze env_all_down pricing_question (ascii ''Deep Dive'') no_calls))) = 2"
  by (simp add: run_defs env_all_down_def pricing_analysis_def new_searches_def)


section \<open>The remaining claims\<close>

text \<open>
  Claim C2, in the form that holds of the code. The list \<open>all_search_results\<close> that the
  driver hands to the synthesizer (and returns as \<open>search_results\<close>) has at most seven
  entries, three of the first search and two of each further one. The limit of four is
  applied inside the synthesizer: its prompt, and so its whole outcome, depends on the
  first four entries only.
\<close>

theorem aggregate_bound:
  "(\<forall>rs. fst (run_searches env question research_depth analysis t) = Inr rs \<longrightarrow> length rs \<le> 7) \<and>
   (\<forall>r. fst (research_and_analyze env question research_depth t) = Inr r \<longrightarrow>
       length (search_results r) \<le> 7) \<and>
   generate_enhanced_report env question (take 4 rs) analysis category t
     = generate_enhanced_report env question rs analysis category t"
proof (intro conjI allI impI)
  fix rs assume "fst (run_searches env question research_depth analysis t) = Inr rs"
  then have "run_searches env question research_depth analysis t
      = (Inr rs, snd (run_searches env question research_depth analysis t))"
    by (metis prod.collapse)
  then show "length rs \<le> 7" by (rule run_searches_length)
next
  fix r assume "fst (research_and_analyze env question research_depth t) = Inr r"
  then have "research_and_analyze env question research_depth t
      = (Inr r, snd (research_and_analyze env question research_depth t))"
    by (metis prod.collapse)
  from research_result [OF this] run_searches_length show "length (search_results r) \<le> 7"
    by blast
next
  have "search_summary env (take 4 rs) = search_summary env rs"
    by (simp add: search_summary_def)
  then have "\<And>tp. report_prompt env tp question (take 4 rs) analysis
      = report_prompt env tp question rs analysis"
    unfolding report_prompt_def by (simp only:)
  then show "generate_enhanced_report env question (take 4 rs) analysis category t
     = generate_enhanced_report env question rs analysis category t"
    by (simp add: generate_enhanced_report_def Let_def cong: sum.case_cong option.case_cong)
qed

text \<open>The claim as written fails: at depth \<open>Deep Dive\<close>, with searches that each find four
  results, the list handed over has five entries (and seven at depth
  \<open>Comprehensive Report\<close>, lemma \<open>comprehensive_seven\<close>).\<close>

theorem aggregate_bound_counterexample:
  "fst (analyze_strategy_question env_pricing pricing_question no_calls) = Inr pricing_analysis \<and>
   fst (run_searches env_pricing pricing_question (ascii ''Deep Dive'') pricing_analysis
          (snd (analyze_strategy_question env_pricing pricing_question no_calls)))
     = Inr (search_results deep_dive_result) \<and>
   fst (research_and_analyze env_pricing pricing_question (ascii ''Deep Dive'') no_calls)
     = Inr deep_dive_result \<and>
   length (search_results deep_dive_result) = 5 \<and>
   \<not> length (search_results deep_dive_result) \<le> 4"
  using deep_dive_run deep_dive_searches
  by (simp add: pricing_classified) (simp add: deep_dive_result_def)

theorem aggregate_bound_witness:
  "fst (run_searches env_pricing pricing_question (ascii ''Deep Dive'') pricing_analysis
          \<lparr>prompts = [classify_prompt pricing_question], searches = []\<rparr>)
     = Inr (search_results deep_dive_result) \<and>
   fst (research_and_analyze env_pricing pricing_question (ascii ''Deep Dive'') no_calls)
     = Inr deep_dive_result \<and>
   length (search_results deep_dive_result) \<le> 7"
  using aggregate_bound [of env_pricing pricing_question "ascii ''Deep Dive''" pricing_analysis
          "\<lparr>prompts = [classify_prompt pricing_question], searches = []\<rparr>"]
    aggregate_bound [of env_pricing pricing_question "ascii ''Deep Dive''" pricing_analysis no_calls]
    deep_dive_run deep_dive_searches
  by simp

text \<open>
  Claim C3, in the form that holds of the code. For every category of the template
  table, the prompt that \<open>generate_enhanced_report\<close> sends contains the title of the
  category's template as it is, and each of its four section names in upper case
  (\<open>template['sections'][i].upper()\<close>).
\<close>

theorem prompt_embeds_template:
  assumes "map_of report_templates category = Some tp"
    and "prompts (snd (generate_enhanced_report env question rs analysis category t))
           = prompts t @ [p]"
  shows "sublist (tmpl_title tp) p \<and>
         sublist (upper (sections tp ! 0)) p \<and> sublist (upper (sections tp ! 1)) p \<and>
         sublist (upper (sections tp ! 2)) p \<and> sublist (upper (sections tp ! 3)) p"
  using generate_prompt [OF assms] template_sections [OF assms(1)]
  by (rule report_prompt_embeds)

text \<open>The claim as written fails: the prompt for the category \<open>pricing\<close> holds
  \<open>PRICE ANALYSIS\<close>, and nowhere the section name \<open>Price Analysis\<close> itself.\<close>

theorem prompt_embeds_template_counterexample:
  "map_of report_templates (ascii ''pricing'')
     = Some \<lparr>tmpl_title = [0x1F4B0] @ ascii '' Pricing Strategy Report'',
             sections = [ascii ''Price Analysis'', ascii ''Competitive Pricing'',
                         ascii ''Value Positioning'', ascii ''Pricing Recommendations'']\<rparr> \<and>
   length (prompts (snd (generate_enhanced_report env_pricing pricing_question
      (search_results deep_dive_result) pricing_analysis (ascii ''pricing'') no_calls))) = 1 \<and>
   \<not> sublist (ascii ''Price Analysis'')
       (hd (prompts (snd (generate_enhanced_report env_pricing pricing_question
          (search_results deep_dive_result) pricing_analysis (ascii ''pricing'') no_calls))))"
proof -
  have "\<not> sublist (ascii ''Price Analysis'')
       (hd (prompts (snd (generate_enhanced_report env_pricing pricing_question
          (search_results deep_dive_result) pricing_analysis (ascii ''pricing'') no_calls))))"
    by (simp add: generate_enhanced_report_def lookup_def report_templates_def
          report_prompt_def py_join_def py_get_def headings_def upper_def upper_char_def
          search_summary_def format_def env_pricing_def services_def no_calls_def
          pricing_analysis_def pricing_question_def deep_dive_result_def hit_result_def
          ascii_def sublist_code Let_def)
  with pricing_prompt_sent show ?thesis
    by (simp add: report_templates_def)
qed

theorem prompt_embeds_template_witness:
  "map_of report_templates (ascii ''pricing'')
     = Some \<lparr>tmpl_title = [0x1F4B0] @ ascii '' Pricing Strategy Report'',
             sections = [ascii ''Price Analysis'', ascii ''Competitive Pricing'',
                         ascii ''Value Positioning'', ascii ''Pricing Recommendations'']\<rparr> \<and>
   length (prompts (snd (generate_enhanced_report env_pricing pricing_question
      (search_results deep_dive_result) pricing_analysis (ascii ''pricing'') no_calls))) = 1 \<and>
   sublist ([0x1F4B0] @ ascii '' Pricing Strategy Report'')
       (hd (prompts (snd (generate_enhanced_report env_pricing pricing_question
          (search_results deep_dive_result) pricing_analysis (ascii ''pricing'') no_calls)))) \<and>
   sublist (ascii ''PRICE ANALYSIS'')
       (hd (prompts (snd (generate_enhanced_report env_pricing pricing_question
          (search_results deep_dive_result) pricing_analysis (ascii ''pricing'') no_calls)))) \<and>
   sublist (ascii ''PRICING RECOMMENDATIONS'')
       (hd (prompts (snd (generate_enhanced_report env_pricing pricing_question
          (search_results deep_dive_result) pricing_analysis (ascii ''pricing'') no_calls))))"
proof -
  let ?G = "generate_enhanced_report env_pricing pricing_question
      (search_results deep_dive_result) pricing_analysis (ascii ''pricing'') no_calls"
  let ?tp = "\<lparr>tmpl_title = [0x1F4B0] @ ascii '' Pricing Strategy Report'',
             sections = [ascii ''Price Analysis'', ascii ''Competitive Pricing'',
                         ascii ''Value Positioning'', ascii ''Pricing Recommendations'']\<rparr>"
  have tp: "map_of report_templates (ascii ''pricing'') = Some ?tp"
    by (simp add: report_templates_def)
  from pricing_prompt_sent have sent: "prompts (snd ?G) = prompts no_calls @ [hd (prompts (snd ?G))]"
    by (cases "prompts (snd ?G)") (simp_all add: no_calls_def)
  have up: "upper (ascii ''Price Analysis'') = ascii ''PRICE ANALYSIS''"
    "upper (ascii ''Pricing Recommendations'') = ascii ''PRICING RECOMMENDATIONS''"
    by (simp_all add: upper_def upper_char_def ascii_def)
  from prompt_embeds_template [OF tp sent] tp pricing_prompt_sent up show ?thesis
    by simp
qed

text \<open>
  Claim C4, in the form that holds of the code. For a classification whose search terms
  are a list, and each of the three depth labels, the driver makes exactly
  \<open>expected_calls\<close> search calls: one for \<open>Quick Analysis\<close>; two for \<open>Deep Dive\<close> when
  there are at least two terms, else one; three for \<open>Comprehensive Report\<close> when there
  are at least three, else two or one. The aggregated list is the first three results of
  the first call followed by the first two of the second and the first two of the third,
  for the calls that were made.
\<close>

theorem search_call_counts:
  assumes "analyze_strategy_question env question t = (Inr analysis, t0)"
    and "map_of analysis (ascii ''search_terms'') = Some (JArr terms)"
    and "research_depth \<in> set (map fst search_counts)"
  shows "length (new_searches t (snd (research_and_analyze env question research_depth t)))
           = expected_calls research_depth (length terms)
       \<and> fst (run_searches env question research_depth analysis t0)
           = Inr (concat (map2 take [3, 2, 2]
               (map snd (new_searches t (snd (research_and_analyze env question research_depth t))))))"
proof -
  from assms(1) analyze_category obtain c where "map_of analysis (ascii ''category'') = Some (JStr c)"
    by blast
  then have c: "category_of analysis = Inr c" by (rule category_of_str)
  from run_searches_list [OF assms(2) c assms(3), of env question t0]
  obtain rs t1 where run: "run_searches env question research_depth analysis t0 = (Inr rs, t1)"
    and n: "length (new_searches t0 t1) = expected_calls research_depth (length terms)"
    and rs: "rs = concat (map2 take [3, 2, 2] (map snd (new_searches t0 t1)))"
    by blast
  have "searches t0 = searches t"
    using analyze_trace [of env question t] assms(1) by simp
  moreover have "searches (snd (research_and_analyze env question research_depth t)) = searches t1"
    using assms(1) run by (rule research_searches)
  ultimately have "new_searches t (snd (research_and_analyze env question research_depth t))
      = new_searches t0 t1"
    by (simp add: new_searches_def)
  with run n rs show ?thesis by simp
qed

text \<open>The claim as written, for every classification, fails: the classifier can return a
  dict without \<open>search_terms\<close>, and the driver then ends with \<open>KeyError\<close> before its first
  search, where a quick analysis is said to make exactly one call.\<close>

theorem search_call_counts_counterexample:
  "fst (analyze_strategy_question env_no_terms pricing_question no_calls)
     = Inr [(ascii ''category'', JStr (ascii ''pricing''))] \<and>
   fst (research_and_analyze env_no_terms pricing_question (ascii ''Quick Analysis'') no_calls)
     = Inl KeyError \<and>
   new_searches no_calls
     (snd (research_and_analyze env_no_terms pricing_question (ascii ''Quick Analysis'') no_calls))
     = [] \<and>
   expected_calls (ascii ''Quick Analysis'') 0 = 1"
  by (simp add: run_defs env_no_terms_def new_searches_def expected_calls_def)

theorem search_call_counts_witness:
  "analyze_strategy_question env_pricing pricing_question no_calls
     = (Inr pricing_analysis, \<lparr>prompts = [classify_prompt pricing_question], searches = []\<rparr>) \<and>
   map_of pricing_analysis (ascii ''search_terms'')
     = Some (JArr [JStr (ascii ''eco-friendly products''), JStr (ascii ''sustainable pricing''),
                   JStr (ascii ''green premium'')]) \<and>
   ascii ''Deep Dive'' \<in> set (map fst search_counts) \<and>
   length (new_searches no_calls
      (snd (research_and_analyze env_pricing pricing_question (ascii ''Deep Dive'') no_calls))) = 2 \<and>
   fst (run_searches env_pricing pricing_question (ascii ''Deep Dive'') pricing_analysis
          \<lparr>prompts = [classify_prompt pricing_question], searches = []\<rparr>)
     = Inr (concat (map2 take [3, 2, 2] (map snd (new_searches no_calls
         (snd (research_and_analyze env_pricing pricing_question (ascii ''Deep Dive'') no_calls))))))"
proof -
  have st: "map_of pricing_analysis (ascii ''search_terms'')
     = Some (JArr [JStr (ascii ''eco-friendly products''), JStr (ascii ''sustainable pricing''),
                   JStr (ascii ''green premium'')])"
    by (simp add: pricing_analysis_def)
  have d: "ascii ''Deep Dive'' \<in> set (map fst search_counts)"
    by (simp add: search_counts_def)
  from search_call_counts [OF pricing_classified st d] pricing_classified st d
  show ?thesis by (simp add: expected_calls_def)
qed

text \<open>
  Claim C5. When the search call raises, \<open>search_amazon_data\<close> returns the empty list, and
  the driver behaves, in its result and in the calls it makes, exactly as it does when
  every raising search call finds nothing instead. The driver goes on: for a
  classification with a list of search terms the searches end with a list, whatever the
  search service does, made of the slices of what each call returned (nothing for a call
  that raised, so the empty list when every call raises); that list goes to the
  synthesizer, and whenever the synthesizer returns a report the driver returns a result
  with that report and those search results.
\<close>

theorem search_exception_swallowed:
  "(get_dict env (length (searches t)) (search_query env query search_type) = Inl e \<longrightarrow>
      fst (search_amazon_data env query search_type t) = []) \<and>
   research_and_analyze env question research_depth t
     = research_and_analyze (quiet env) question research_depth t \<and>
   (\<forall>analysis t0 terms.
      analyze_strategy_question env question t = (Inr analysis, t0) \<and>
      map_of analysis (ascii ''search_terms'') = Some (JArr terms) \<longrightarrow>
      (\<exists>rs t1 c.
         run_searches env question research_depth analysis t0 = (Inr rs, t1) \<and>
         category_of analysis = Inr c \<and>
         rs = concat (map2 take [3, 2, 2] (map snd (new_searches t0 t1))) \<and>
         ((\<forall>n p. \<exists>e. get_dict env n p = Inl e) \<longrightarrow> rs = []) \<and>
         (\<forall>rep t2. generate_enhanced_report env question rs analysis c t1 = (Inr rep, t2) \<longrightarrow>
            (\<exists>r. research_and_analyze env question research_depth t = (Inr r, t2) \<and>
                 search_results r = rs \<and> report r = rep \<and>
                 sources r = filter truthy (map link rs)))))"
proof (intro conjI allI impI)
  assume "get_dict env (length (searches t)) (search_query env query search_type) = Inl e"
  then show "fst (search_amazon_data env query search_type t) = []"
    by (rule search_amazon_data_raises)
next
  show "research_and_analyze env question research_depth t
     = research_and_analyze (quiet env) question research_depth t"
    by (simp add: research_quiet)
next
  fix analysis t0 terms
  assume h: "analyze_strategy_question env question t = (Inr analysis, t0) \<and>
      map_of analysis (ascii ''search_terms'') = Some (JArr terms)"
  then have an: "analyze_strategy_question env question t = (Inr analysis, t0)"
    and st: "map_of analysis (ascii ''search_terms'') = Some (JArr terms)" by simp_all
  from an analyze_category obtain c where "map_of analysis (ascii ''category'') = Some (JStr c)"
    by blast
  then have c: "category_of analysis = Inr c" by (rule category_of_str)
  from run_searches_continues [OF st c, of env question research_depth t0]
  obtain rs t1 where run: "run_searches env question research_depth analysis t0 = (Inr rs, t1)"
    and rs: "rs = concat (map2 take [3, 2, 2] (map snd (new_searches t0 t1)))"
    and zero: "(\<forall>n p. \<exists>e. get_dict env n p = Inl e) \<longrightarrow> rs = []"
    by (elim exE conjE)
  have "\<forall>rep t2. generate_enhanced_report env question rs analysis c t1 = (Inr rep, t2) \<longrightarrow>
            (\<exists>r. research_and_analyze env question research_depth t = (Inr r, t2) \<and>
                 search_results r = rs \<and> report r = rep \<and>
                 sources r = filter truthy (map link rs))"
    using research_returns [OF an run c] by blast
  with run c rs zero
  show "\<exists>rs t1 c.
         run_searches env question research_depth analysis t0 = (Inr rs, t1) \<and>
         category_of analysis = Inr c \<and>
         rs = concat (map2 take [3, 2, 2] (map snd (new_searches t0 t1))) \<and>
         ((\<forall>n p. \<exists>e. get_dict env n p = Inl e) \<longrightarrow> rs = []) \<and>
         (\<forall>rep t2. generate_enhanced_report env question rs analysis c t1 = (Inr rep, t2) \<longrightarrow>
            (\<exists>r. research_and_analyze env question research_depth t = (Inr r, t2) \<and>
                 search_results r = rs \<and> report r = rep \<and>
                 sources r = filter truthy (map link rs)))"
    by blast
qed

theorem search_exception_swallowed_witness:
  "get_dict env_search_down (length (searches no_calls))
      (search_query env_search_down (JStr (ascii ''eco-friendly products'')) (ascii ''pricing''))
     = Inl (External (ascii ''timed out'')) \<and>
   fst (search_amazon_data env_search_down (JStr (ascii ''eco-friendly products''))
          (ascii ''pricing'') no_calls) = [] \<and>
   map_sum id search_results
     (fst (research_and_analyze env_search_down pricing_question (ascii ''Deep Dive'') no_calls))
     = Inr [hit_result ''a'', hit_result ''b''] \<and>
   research_and_analyze env_search_down pricing_question (ascii ''Deep Dive'') no_calls
     = research_and_analyze (quiet env_search_down) pricing_question (ascii ''Deep Dive'') no_calls \<and>
   analyze_strategy_question env_all_down pricing_question no_calls
     = (Inr pricing_analysis, \<lparr>prompts = [classify_prompt pricing_question], searches = []\<rparr>) \<and>
   map_of pricing_analysis (ascii ''search_terms'')
     = Some (JArr [JStr (ascii ''eco-friendly products''), JStr (ascii ''sustainable pricing''),
                   JStr (ascii ''green premium'')]) \<and>
   (\<forall>n p. \<exists>e. get_dict env_all_down n p = Inl e) \<and>
   fst (run_searches env_all_down pricing_question (ascii ''Deep Dive'') pricing_analysis
          \<lparr>prompts = [classify_prompt pricing_question], searches = []\<rparr>) = Inr [] \<and>
   map_sum id search_results
     (fst (research_and_analyze env_all_down pricing_question (ascii ''Deep Dive'') no_calls))
     = Inr [] \<and>
   map_sum id report
     (fst (research_and_analyze env_all_down pricing_question (ascii ''Deep Dive'') no_calls))
     = Inr (ascii ''text'')"
proof -
  have down: "get_dict env_search_down (length (searches no_calls))
      (search_query env_search_down (JStr (ascii ''eco-friendly products'')) (ascii ''pricing''))
     = Inl (External (ascii ''timed out''))"
    by (simp add: env_search_down_def services_def no_calls_def)
  have run: "map_sum id search_results
     (fst (research_and_analyze env_search_down pricing_question (ascii ''Deep Dive'') no_calls))
     = Inr [hit_result ''a'', hit_result ''b'']"
    by (simp add: run_defs env_search_down_def pricing_analysis_def)
  have st: "map_of pricing_analysis (ascii ''search_terms'')
     = Some (JArr [JStr (ascii ''eco-friendly products''), JStr (ascii ''sustainable pricing''),
                   JStr (ascii ''green premium'')])"
    by (simp add: pricing_analysis_def)
  have all: "\<forall>n p. \<exists>e. get_dict env_all_down n p = Inl e"
    by (simp add: env_all_down_def services_def)
  have none: "fst (run_searches env_all_down pricing_question (ascii ''Deep Dive'') pricing_analysis
          \<lparr>prompts = [classify_prompt pricing_question], searches = []\<rparr>) = Inr []"
    by (simp add: run_defs env_all_down_def pricing_analysis_def)
  from search_exception_swallowed [of env_search_down no_calls
      "JStr (ascii ''eco-friendly products'')" "ascii ''pricing''" "External (ascii ''timed out'')"
      pricing_question "ascii ''Deep Dive''"]
    search_exception_swallowed [of env_all_down no_calls
      "JStr (ascii ''eco-friendly products'')" "ascii ''pricing''" "External (ascii ''timed out'')"
      pricing_question "ascii ''Deep Dive''"]
    down run st all none all_down_classified all_down_run
  show ?thesis by simp
qed

text \<open>
  Claim C6. When the chat call of the classifier raises, the driver ends with that
  exception after this one call: no search is made and no report is requested. The
  handler of the button then shows the error banner with that exception, for a
  non-empty question and a configured agent.
\<close>

theorem classifier_exception_propagates:
  assumes "chat env (length (prompts t)) (classify_prompt question) = Inl e"
  shows "research_and_analyze env question research_depth t
           = (Inl e, t\<lparr>prompts := prompts t @ [classify_prompt question]\<rparr>)
       \<and> (question \<noteq> [] \<longrightarrow>
            fst (on_generate env True question research_depth t) = ErrorGeneratingReport e)"
  using assms
  by (simp add: research_and_analyze_def analyze_strategy_question_def on_generate_def Let_def)

theorem classifier_exception_propagates_witness:
  "chat env_chat_down (length (prompts no_calls)) (classify_prompt pricing_question)
     = Inl (External (ascii ''rate limit'')) \<and>
   research_and_analyze env_chat_down pricing_question (ascii ''Deep Dive'') no_calls
     = (Inl (External (ascii ''rate limit'')),
        no_calls\<lparr>prompts := prompts no_calls @ [classify_prompt pricing_question]\<rparr>) \<and>
   pricing_question \<noteq> [] \<and>
   fst (on_generate env_chat_down True pricing_question (ascii ''Deep Dive'') no_calls)
     = ErrorGeneratingReport (External (ascii ''rate limit''))"
proof -
  have down: "chat env_chat_down (length (prompts no_calls)) (classify_prompt pricing_question)
     = Inl (External (ascii ''rate limit''))"
    by (simp add: env_chat_down_def services_def)
  have ne: "pricing_question \<noteq> []"
    by (simp add: pricing_question_def)
  from classifier_exception_propagates [OF down, of "ascii ''Deep Dive''"] down ne
  show ?thesis by simp
qed

text \<open>
  Claim C8. For the pricing question at depth \<open>Deep Dive\<close>, when the classifier returns the
  category \<open>pricing\<close> with at least two search terms, exactly two search calls are made,
  and the result, when the driver returns one, names the pricing template's title.
\<close>

theorem pricing_scenario:
  assumes "analyze_strategy_question env pricing_question t = (Inr analysis, t0)"
    and "map_of analysis (ascii ''category'') = Some (JStr (ascii ''pricing''))"
    and "map_of analysis (ascii ''search_terms'') = Some (JArr terms)"
    and "2 \<le> length terms"
  shows "length (new_searches t
            (snd (research_and_analyze env pricing_question (ascii ''Deep Dive'') t))) = 2
       \<and> (\<forall>r. fst (research_and_analyze env pricing_question (ascii ''Deep Dive'') t) = Inr r
              \<longrightarrow> template_used r = [0x1F4B0] @ ascii '' Pricing Strategy Report'')"
proof (intro conjI allI impI)
  have c: "category_of analysis = Inr (ascii ''pricing'')"
    using assms(2) by (rule category_of_str)
  have d: "ascii ''Deep Dive'' \<in> set (map fst search_counts)"
    by (simp add: search_counts_def)
  from run_searches_list [OF assms(3) c d, of env pricing_question t0]
  obtain rs t1 where run: "run_searches env pricing_question (ascii ''Deep Dive'') analysis t0 = (Inr rs, t1)"
    and n: "length (new_searches t0 t1) = expected_calls (ascii ''Deep Dive'') (length terms)"
    by blast
  have "searches t0 = searches t"
    using analyze_trace [of env pricing_question t] assms(1) by simp
  moreover have "searches (snd (research_and_analyze env pricing_question (ascii ''Deep Dive'') t))
      = searches t1"
    using assms(1) run by (rule research_searches)
  ultimately have "new_searches t (snd (research_and_analyze env pricing_question (ascii ''Deep Dive'') t))
      = new_searches t0 t1"
    by (simp add: new_searches_def)
  with n assms(4)
  show "length (new_searches t
            (snd (research_and_analyze env pricing_question (ascii ''Deep Dive'') t))) = 2"
    by (simp add: expected_calls_def)
next
  fix r
  assume "fst (research_and_analyze env pricing_question (ascii ''Deep Dive'') t) = Inr r"
  then have "research_and_analyze env pricing_question (ascii ''Deep Dive'') t
      = (Inr r, snd (research_and_analyze env pricing_question (ascii ''Deep Dive'') t))"
    by (metis prod.collapse)
  from research_result [OF this] assms(1) assms(2)
  show "template_used r = [0x1F4B0] @ ascii '' Pricing Strategy Report''"
    by (auto simp: category_of_def py_getitem_def lookup_def report_templates_def)
qed

theorem pricing_scenario_witness:
  "analyze_strategy_question env_pricing pricing_question no_calls
     = (Inr pricing_analysis, \<lparr>prompts = [classify_prompt pricing_question], searches = []\<rparr>) \<and>
   map_of pricing_analysis (ascii ''category'') = Some (JStr (ascii ''pricing'')) \<and>
   map_of pricing_analysis (ascii ''search_terms'')
     = Some (JArr [JStr (ascii ''eco-friendly products''), JStr (ascii ''sustainable pricing''),
                   JStr (ascii ''green premium'')]) \<and>
   length (new_searches no_calls
      (snd (research_and_analyze env_pricing pricing_question (ascii ''Deep Dive'') no_calls))) = 2 \<and>
   fst (research_and_analyze env_pricing pricing_question (ascii ''Deep Dive'') no_calls)
     = Inr deep_dive_result \<and>
   template_used deep_dive_result = [0x1F4B0] @ ascii '' Pricing Strategy Report''"
proof -
  have c: "map_of pricing_analysis (ascii ''category'') = Some (JStr (ascii ''pricing''))"
    by (simp add: pricing_analysis_def)
  have st: "map_of pricing_analysis (ascii ''search_terms'')
     = Some (JArr [JStr (ascii ''eco-friendly products''), JStr (ascii ''sustainable pricing''),
                   JStr (ascii ''green premium'')])"
    by (simp add: pricing_analysis_def)
  from pricing_scenario [OF pricing_classified c st] pricing_classified c st deep_dive_run
  show ?thesis by simp
qed

text \<open>
  Claim C9. The file name of the download is the prefix \<open>amazon_strategy_report_\<close>, the
  first thirty characters of the question with each space turned into an underscore,
  and \<open>.md\<close>; for the skincare question this is
  \<open>amazon_strategy_report_What_is_the_best_ad_strategy_f.md\<close>.
\<close>

theorem download_file_name:
  "file_name question
     = ascii ''amazon_strategy_report_'' @ map underscore (take 30 question) @ ascii ''.md'' \<and>
   file_name skincare_question
     = ascii ''amazon_strategy_report_What_is_the_best_ad_strategy_f.md''"
proof -
  have sp: "ascii '' '' = [32]" and us: "ascii ''_'' = [95]"
    by (simp_all add: ascii_def)
  have "replace [32] [95] (take 30 q) = map underscore (take 30 q)" for q
    unfolding replace_char underscore_def ..
  then have general: "file_name q
      = ascii ''amazon_strategy_report_'' @ map underscore (take 30 q) @ ascii ''.md''" for q
    by (simp add: file_name_def sp us)
  have "file_name skincare_question
     = ascii ''amazon_strategy_report_What_is_the_best_ad_strategy_f.md''"
    unfolding general by (simp add: skincare_question_def ascii_def underscore_def)
  with general show ?thesis by simp
qed

text \<open>
  Claim C10. When the classifier's answer parses to a dict without the key
  \<open>search_terms\<close>, the driver ends with \<open>KeyError\<close> before any search, and the handler
  shows the error banner; when the key is there with an empty list, the one search of
  the driver is made with the question itself as the term.
\<close>

theorem missing_or_empty_search_terms:
  assumes "chat env (length (prompts t)) (classify_prompt question) = Inr content"
    and "loads env content = Some (JObj d)"
  shows "(map_of d (ascii ''search_terms'') = None \<longrightarrow>
            fst (research_and_analyze env question research_depth t) = Inl KeyError
            \<and> new_searches t (snd (research_and_analyze env question research_depth t)) = []
            \<and> (question \<noteq> [] \<longrightarrow>
                 fst (on_generate env True question research_depth t)
                   = ErrorGeneratingReport KeyError))
       \<and> (map_of d (ascii ''search_terms'') = Some (JArr []) \<longrightarrow>
            (\<exists>a c. fst (analyze_strategy_question env question t) = Inr a
               \<and> map_of a (ascii ''category'') = Some (JStr c)
               \<and> map fst (new_searches t (snd (research_and_analyze env question research_depth t)))
                   = [search_query env (JStr question) c]))"
proof -
  from analyze_dict [OF assms] obtain a
    where a: "analyze_strategy_question env question t
                = (Inr a, t\<lparr>prompts := prompts t @ [classify_prompt question]\<rparr>)"
      and same: "map_of a (ascii ''search_terms'') = map_of d (ascii ''search_terms'')"
    by auto
  let ?t0 = "t\<lparr>prompts := prompts t @ [classify_prompt question]\<rparr>"
  show ?thesis
  proof (intro conjI impI)
    assume none: "map_of d (ascii ''search_terms'') = None"
    with same have "run_searches env question research_depth a ?t0 = (Inl KeyError, ?t0)"
      by (simp add: run_searches_no_terms)
    with a have r: "research_and_analyze env question research_depth t = (Inl KeyError, ?t0)"
      by (simp add: research_and_analyze_def)
    then show "fst (research_and_analyze env question research_depth t) = Inl KeyError"
      by simp
    from r show "new_searches t (snd (research_and_analyze env question research_depth t)) = []"
      by (simp add: new_searches_def)
    assume "question \<noteq> []"
    with r show "fst (on_generate env True question research_depth t)
                   = ErrorGeneratingReport KeyError"
      by (simp add: on_generate_def)
  next
    assume empty: "map_of d (ascii ''search_terms'') = Some (JArr [])"
    from a analyze_category obtain c
      where cat: "map_of a (ascii ''category'') = Some (JStr c)" by blast
    then have c: "category_of a = Inr c" by (rule category_of_str)
    from empty same have "map_of a (ascii ''search_terms'') = Some (JArr [])" by simp
    from run_searches_empty_terms [OF this c, of env question research_depth ?t0]
    obtain rs t1 where run: "run_searches env question research_depth a ?t0 = (Inr rs, t1)"
      and one: "map fst (new_searches ?t0 t1) = [search_query env (JStr question) c]"
      by (elim exE conjE)
    have "searches (snd (research_and_analyze env question research_depth t)) = searches t1"
      using a run by (rule research_searches)
    then have "new_searches t (snd (research_and_analyze env question research_depth t))
      = new_searches ?t0 t1"
      by (simp add: new_searches_def)
    with one a cat
    show "\<exists>a c. fst (analyze_strategy_question env question t) = Inr a
               \<and> map_of a (ascii ''category'') = Some (JStr c)
               \<and> map fst (new_searches t (snd (research_and_analyze env question research_depth t)))
                   = [search_query env (JStr question) c]"
      by auto
  qed
qed

theorem missing_or_empty_search_terms_witness:
  "chat env_no_terms (length (prompts no_calls)) (classify_prompt pricing_question)
     = Inr (ascii ''text'') \<and>
   loads env_no_terms (ascii ''text'') = Some (JObj [(ascii ''category'', JStr (ascii ''pricing''))]) \<and>
   map_of [(ascii ''category'', JStr (ascii ''pricing''))] (ascii ''search_terms'') = None \<and>
   fst (research_and_analyze env_no_terms pricing_question (ascii ''Deep Dive'') no_calls)
     = Inl KeyError \<and>
   new_searches no_calls
     (snd (research_and_analyze env_no_terms pricing_question (ascii ''Deep Dive'') no_calls)) = [] \<and>
   pricing_question \<noteq> [] \<and>
   fst (on_generate env_no_terms True pricing_question (ascii ''Deep Dive'') no_calls)
     = ErrorGeneratingReport KeyError \<and>
   chat env_empty_terms (length (prompts no_calls)) (classify_prompt pricing_question)
     = Inr (ascii ''text'') \<and>
   loads env_empty_terms (ascii ''text'')
     = Some (JObj [(ascii ''category'', JStr (ascii ''pricing'')), (ascii ''search_terms'', JArr [])]) \<and>
   map fst (new_searches no_calls
     (snd (research_and_analyze env_empty_terms pricing_question (ascii ''Deep Dive'') no_calls)))
     = [ascii ''Amazon pricing strategy '' @ pricing_question @ ascii '' market'']"
proof -
  have c1: "chat env_no_terms (length (prompts no_calls)) (classify_prompt pricing_question)
     = Inr (ascii ''text'')"
    by (simp add: env_no_terms_def services_def)
  have l1: "loads env_no_terms (ascii ''text'')
     = Some (JObj [(ascii ''category'', JStr (ascii ''pricing''))])"
    by (simp add: env_no_terms_def services_def)
  have c2: "chat env_empty_terms (length (prompts no_calls)) (classify_prompt pricing_question)
     = Inr (ascii ''text'')"
    by (simp add: env_empty_terms_def services_def)
  have l2: "loads env_empty_terms (ascii ''text'')
     = Some (JObj [(ascii ''category'', JStr (ascii ''pricing'')), (ascii ''search_terms'', JArr [])])"
    by (simp add: env_empty_terms_def services_def)
  have ne: "pricing_question \<noteq> []"
    by (simp add: pricing_question_def)
  have a2: "fst (analyze_strategy_question env_empty_terms pricing_question no_calls)
     = Inr [(ascii ''category'', JStr (ascii ''pricing'')), (ascii ''search_terms'', JArr [])]"
    by (simp add: analyze_strategy_question_def env_empty_terms_def services_def no_calls_def
          validate_def py_get_def valid_categories_def)
  have q: "search_query env_empty_terms (JStr pricing_question) (ascii ''pricing'')
     = ascii ''Amazon pricing strategy '' @ pricing_question @ ascii '' market''"
    by (simp add: search_query_def search_queries_def format_def)
  from missing_or_empty_search_terms [OF c1 l1, of "ascii ''Deep Dive''"]
       missing_or_empty_search_terms [OF c2 l2, of "ascii ''Deep Dive''"]
       c1 l1 c2 l2 ne a2 q
  show ?thesis by auto
qed

end
